theory Spec2Isabelle
  imports Complex_Main
begin

section \<open>Python values and exceptions\<close>

text \<open>
  \<^verbatim>\<open>drive_time.py\<close> handles three kinds of data: the decoded JSON of the directions
  response, the decoded JSON of the preferences file, and command-line strings. All of them
  are Python objects of the types \<^verbatim>\<open>json\<close> produces, so one datatype covers them. A
  dictionary is an association list read with \<^const>\<open>map_of\<close>. Strings are lists of
  8-bit characters; the arrow of the two report lines is written as its UTF-8 bytes.

  The model starts where \<^verbatim>\<open>main\<close> is called: the client has been created and the
  connectivity probe of lines 36 to 44 has passed.
\<close>

datatype pyfloat = Fin rat | NegZero | PInf | NInf | NaN

datatype pyval =
    PNone
  | PBool bool
  | PInt int
  | PFloat pyfloat
  | PStr string
  | PList "pyval list"
  | PDict "(string \<times> pyval) list"

text \<open>
  Every exception of the model is a subclass of Python's \<^verbatim>\<open>Exception\<close>, with the text
  \<^verbatim>\<open>str(e)\<close> gives. \<open>ServiceError\<close> stands for whatever the \<^verbatim>\<open>googlemaps\<close> client
  raises (\<^verbatim>\<open>ApiError\<close>, \<^verbatim>\<open>TransportError\<close>, \<^verbatim>\<open>Timeout\<close>, ...).
\<close>

datatype exn_kind =
    IndexError | KeyError | TypeError | ValueError | AttributeError
  | ZeroDivisionError | OverflowError | EOFError
  | FileNotFoundError | PermissionError | JSONDecodeError | UnicodeDecodeError
  | ServiceError | OtherError

datatype exn = Exn (kind: exn_kind) (message: string)

text \<open>Sequencing: an exception raised by the first computation ends the second.\<close>

definition ebind :: "exn + 'a \<Rightarrow> ('a \<Rightarrow> exn + 'b) \<Rightarrow> exn + 'b" where
  "ebind m f = (case m of Inl e \<Rightarrow> Inl e | Inr x \<Rightarrow> f x)"

definition sq :: string where
  "sq = [CHR 0x27]"

definition type_name :: "pyval \<Rightarrow> string" where
  "type_name v = (case v of
       PNone \<Rightarrow> ''NoneType'' | PBool _ \<Rightarrow> ''bool'' | PInt _ \<Rightarrow> ''int''
     | PFloat _ \<Rightarrow> ''float'' | PStr _ \<Rightarrow> ''str'' | PList _ \<Rightarrow> ''list''
     | PDict _ \<Rightarrow> ''dict'')"

definition not_subscriptable :: "pyval \<Rightarrow> exn" where
  "not_subscriptable v = Exn TypeError (sq @ type_name v @ sq @ '' object is not subscriptable'')"

text \<open>The position an integer index \<open>i\<close> selects in a sequence of \<open>len\<close> items, if any:
  an index below zero is taken from the end.\<close>

definition py_index :: "int \<Rightarrow> nat \<Rightarrow> nat option" where
  "py_index i len =
     (if i < - int len \<or> int len \<le> i then None
      else if i < 0 then Some (nat (int len + i))
      else Some (nat i))"

text \<open>\<^verbatim>\<open>v[i]\<close> for an integer \<open>i\<close>.\<close>

definition py_getitem_int :: "pyval \<Rightarrow> int \<Rightarrow> exn + pyval" where
  "py_getitem_int v i = (case v of
       PList xs \<Rightarrow>
         (case py_index i (length xs) of
            None \<Rightarrow> Inl (Exn IndexError ''list index out of range'')
          | Some k \<Rightarrow> Inr (xs ! k))
     | PStr s \<Rightarrow>
         (case py_index i (length s) of
            None \<Rightarrow> Inl (Exn IndexError ''string index out of range'')
          | Some k \<Rightarrow> Inr (PStr [s ! k]))
     | PDict d \<Rightarrow> Inl (Exn KeyError (if i = 0 then ''0'' else ''<int>''))
     | _ \<Rightarrow> Inl (not_subscriptable v))"

text \<open>\<^verbatim>\<open>v[k]\<close> for a string \<open>k\<close>; the text of a \<^verbatim>\<open>KeyError\<close> is \<^verbatim>\<open>repr(k)\<close>.\<close>

definition py_getitem_str :: "pyval \<Rightarrow> string \<Rightarrow> exn + pyval" where
  "py_getitem_str v k = (case v of
       PDict d \<Rightarrow>
         (case map_of d k of
            None \<Rightarrow> Inl (Exn KeyError (sq @ k @ sq))
          | Some x \<Rightarrow> Inr x)
     | PList _ \<Rightarrow> Inl (Exn TypeError ''list indices must be integers or slices, not str'')
     | PStr _ \<Rightarrow> Inl (Exn TypeError (''string indices must be integers, not '' @ sq @ ''str'' @ sq))
     | _ \<Rightarrow> Inl (not_subscriptable v))"

section \<open>Python floats\<close>

text \<open>
  A Python float is an IEEE binary64 value: \<open>Fin r\<close> is the finite value \<open>r\<close> (\<open>Fin 0\<close> is
  \<open>+0.0\<close>), \<open>NegZero\<close> is \<open>-0.0\<close>. Every operation computes the exact rational result and
  rounds it to the nearest binary64 value, ties to even, as the hardware and CPython's
  correctly rounded \<^verbatim>\<open>int / int\<close> and \<^verbatim>\<open>round(x, n)\<close> do.
\<close>

definition round_half_even :: "rat \<Rightarrow> int" where
  "round_half_even x =
     (let f = \<lfloor>x\<rfloor>; d = x - of_int f
      in if d < 1 / 2 then f
         else if 1 / 2 < d then f + 1
         else if even f then f else f + 1)"

definition pow2 :: "int \<Rightarrow> rat" where
  "pow2 k = (if 0 \<le> k then 2 ^ nat k else 1 / 2 ^ nat (- k))"

text \<open>The number of bits of a positive integer: \<open>bit_length 5 = 3\<close>.\<close>

function bit_length :: "int \<Rightarrow> int" where
  "bit_length n = (if n \<le> 0 then 0 else 1 + bit_length (n div 2))"
  by pat_completeness auto
termination
  by (relation "measure nat") auto

declare bit_length.simps [simp del]

text \<open>\<open>ilog2 a\<close> is \<open>\<lfloor>log\<^sub>2 a\<rfloor>\<close> for a positive rational \<open>a\<close>, from the bit lengths of its
  numerator and denominator.\<close>

definition ilog2 :: "rat \<Rightarrow> int" where
  "ilog2 a =
     (let (p, q) = quotient_of a; d = bit_length p - bit_length q
      in if pow2 d \<le> a then d else d - 1)"

text \<open>The nearest point of the binary64 grid (53 significant bits, least exponent \<open>-1022\<close>,
  subnormals below) to a positive rational; the grid is not cut off above here.\<close>

definition nearest_double :: "rat \<Rightarrow> rat" where
  "nearest_double a =
     (let e = max (ilog2 a) (- 1022); q = pow2 (e - 52)
      in of_int (round_half_even (a / q)) * q)"

text \<open>Rounding a sign and a magnitude: overflow gives an infinity, underflow a signed zero.\<close>

definition to_float :: "bool \<Rightarrow> rat \<Rightarrow> pyfloat" where
  "to_float neg a =
     (if a = 0 then (if neg then NegZero else Fin 0)
      else let r = nearest_double a
           in if 2 ^ 1024 \<le> r then (if neg then NInf else PInf)
              else if r = 0 then (if neg then NegZero else Fin 0)
              else Fin (if neg then - r else r))"

definition is_zero :: "pyfloat \<Rightarrow> bool" where
  "is_zero x = (x = Fin 0 \<or> x = NegZero)"

definition is_inf :: "pyfloat \<Rightarrow> bool" where
  "is_inf x = (x = PInf \<or> x = NInf)"

definition sign_bit :: "pyfloat \<Rightarrow> bool" where
  "sign_bit x = (case x of Fin r \<Rightarrow> r < 0 | NegZero \<Rightarrow> True | NInf \<Rightarrow> True | _ \<Rightarrow> False)"

definition magnitude :: "pyfloat \<Rightarrow> rat" where
  "magnitude x = (case x of Fin r \<Rightarrow> \<bar>r\<bar> | _ \<Rightarrow> 0)"

text \<open>\<^verbatim>\<open>a / b\<close> on two Python ints.\<close>

definition int_truediv :: "int \<Rightarrow> int \<Rightarrow> exn + pyfloat" where
  "int_truediv a b =
     (if b = 0 then Inl (Exn ZeroDivisionError ''division by zero'')
      else let r = to_float ((a < 0) \<noteq> (b < 0)) \<bar>of_int a / of_int b\<bar>
           in if is_inf r
              then Inl (Exn OverflowError ''integer division result too large for a float'')
              else Inr r)"

text \<open>\<^verbatim>\<open>float(n)\<close> as the arithmetic operators apply it to an int operand.\<close>

definition float_of_int :: "int \<Rightarrow> exn + pyfloat" where
  "float_of_int n =
     (let r = to_float (n < 0) \<bar>of_int n\<bar>
      in if is_inf r then Inl (Exn OverflowError ''int too large to convert to float'')
         else Inr r)"

text \<open>\<^verbatim>\<open>a / b\<close> on two Python floats.\<close>

definition float_div :: "pyfloat \<Rightarrow> pyfloat \<Rightarrow> exn + pyfloat" where
  "float_div a b =
     (if is_zero b then Inl (Exn ZeroDivisionError ''float division by zero'')
      else if a = NaN \<or> b = NaN then Inr NaN
      else if is_inf a then
        (if is_inf b then Inr NaN
         else Inr (if sign_bit a \<noteq> sign_bit b then NInf else PInf))
      else if is_inf b then Inr (if sign_bit a \<noteq> sign_bit b then NegZero else Fin 0)
      else Inr (to_float (sign_bit a \<noteq> sign_bit b) (magnitude a / magnitude b)))"

text \<open>\<^verbatim>\<open>a + b\<close> on two Python floats.\<close>

definition float_add :: "pyfloat \<Rightarrow> pyfloat \<Rightarrow> pyfloat" where
  "float_add a b =
     (if a = NaN \<or> b = NaN then NaN
      else if is_inf a then (if is_inf b \<and> a \<noteq> b then NaN else a)
      else if is_inf b then b
      else if a = NegZero then b
      else if b = NegZero then a
      else (case (a, b) of
              (Fin x, Fin y) \<Rightarrow> (if x + y = 0 then Fin 0 else to_float (x + y < 0) \<bar>x + y\<bar>)
            | _ \<Rightarrow> NaN))"

text \<open>\<^verbatim>\<open>v / b\<close> for an int literal \<open>b\<close>: \<^verbatim>\<open>bool\<close> is a subclass of \<^verbatim>\<open>int\<close>, a float
  operand converts \<open>b\<close> to float, anything else has no \<^verbatim>\<open>/\<close>.\<close>

definition py_truediv :: "pyval \<Rightarrow> int \<Rightarrow> exn + pyfloat" where
  "py_truediv v b = (case v of
       PInt a \<Rightarrow> int_truediv a b
     | PBool c \<Rightarrow> int_truediv (if c then 1 else 0) b
     | PFloat x \<Rightarrow> ebind (float_of_int b) (float_div x)
     | _ \<Rightarrow> Inl (Exn TypeError (''unsupported operand type(s) for /: '' @ sq @ type_name v @ sq
                   @ '' and '' @ sq @ ''int'' @ sq)))"

text \<open>\<^verbatim>\<open>round(x, 1)\<close>: the exact binary value is rounded to one decimal, ties to even, and
  the decimal is converted back to the nearest float; zeros, infinities and NaN are returned
  as they are.\<close>

definition py_round1 :: "pyfloat \<Rightarrow> pyfloat" where
  "py_round1 x = (case x of
       Fin r \<Rightarrow> to_float (r < 0) (of_int (round_half_even (10 * \<bar>r\<bar>)) / 10)
     | _ \<Rightarrow> x)"

text \<open>\<^verbatim>\<open>x > 0\<close> and \<^verbatim>\<open>x >= 0\<close> for a float \<open>x\<close>.\<close>

definition py_gt0 :: "pyfloat \<Rightarrow> bool" where
  "py_gt0 x = (case x of Fin r \<Rightarrow> 0 < r | PInf \<Rightarrow> True | _ \<Rightarrow> False)"

definition py_ge0 :: "pyfloat \<Rightarrow> bool" where
  "py_ge0 x = (case x of Fin r \<Rightarrow> 0 \<le> r | NegZero \<Rightarrow> True | PInf \<Rightarrow> True | _ \<Rightarrow> False)"

section \<open>The world of one run\<close>

text \<open>
  A directions request as \<^verbatim>\<open>eta_minutes\<close> sends it, and the directions service: a request
  gives the decoded list of routes or raises.
\<close>

record query =
  q_origin :: pyval
  q_destination :: pyval
  q_mode :: string
  q_departure_time :: int
  q_traffic_model :: string

type_synonym service = "query \<Rightarrow> exn + pyval"

text \<open>
  The preferences file \<^verbatim>\<open>~/.config/drive_time/defaults.json\<close>: its directory is missing,
  the directory is there and the file is not, the file is there with some content, or the
  file is there and the user may neither read nor write it.
\<close>

datatype fs_state = NoDir | NoFile | HasFile string | NoAccess

text \<open>
  What the operating system refuses when the program changes the file system: the
  exception of creating the directory when it is missing (a parent that is not writable,
  a path component that is a file), of creating the file in the directory, and of opening
  the existing file for writing. \<open>None\<close> means that the step is allowed.
\<close>

record access =
  mkdir_error :: "exn option"
  create_error :: "exn option"
  write_error :: "exn option"

text \<open>What reaches standard output: a \<^verbatim>\<open>print\<close>ed line, the prompt of an \<^verbatim>\<open>input\<close>, the
  usage text of \<^verbatim>\<open>parser.print_help()\<close>.\<close>

datatype out = Line string | Prompt string | Help

record world =
  fs :: fs_state
  access :: access
  stdin :: "string list"
  stdout :: "out list"
  queries :: "query list"
  now :: int
  current_time :: int

definition print :: "string \<Rightarrow> world \<Rightarrow> world" where
  "print s w = w\<lparr>stdout := stdout w @ [Line s]\<rparr>"

definition print_help :: "world \<Rightarrow> world" where
  "print_help w = w\<lparr>stdout := stdout w @ [Help]\<rparr>"

section \<open>The directions client\<close>

text \<open>Lines 61 to 67 of \<^verbatim>\<open>eta_minutes\<close>: the first leg of the first route.\<close>

definition leg_summary :: "pyval \<Rightarrow> exn + (pyfloat \<times> pyval \<times> pyval \<times> pyval)" where
  "leg_summary result =
     ebind (py_getitem_int result 0) (\<lambda>route.
     ebind (py_getitem_str route ''legs'') (\<lambda>legs.
     ebind (py_getitem_int legs 0) (\<lambda>leg.
     ebind (py_getitem_str leg ''duration_in_traffic'') (\<lambda>duration.
     ebind (py_getitem_str duration ''value'') (\<lambda>seconds.
     ebind (py_getitem_str leg ''start_address'') (\<lambda>formatted_origin.
     ebind (py_getitem_str leg ''end_address'') (\<lambda>formatted_destination.
     ebind (py_getitem_str leg ''distance'') (\<lambda>distance_obj.
     ebind (py_getitem_str distance_obj ''text'') (\<lambda>distance.
     ebind (py_truediv seconds 60) (\<lambda>minutes.
       Inr (py_round1 minutes, formatted_origin, formatted_destination, distance)))))))))))"

text \<open>The request of lines 53 to 59.\<close>

definition driving_query :: "pyval \<Rightarrow> pyval \<Rightarrow> int \<Rightarrow> query" where
  "driving_query origin destination depart_epoch =
     \<lparr>q_origin = origin, q_destination = destination, q_mode = ''driving'',
      q_departure_time = depart_epoch, q_traffic_model = ''best_guess''\<rparr>"

definition eta_minutes ::
  "service \<Rightarrow> pyval \<Rightarrow> pyval \<Rightarrow> int \<Rightarrow> world
     \<Rightarrow> (exn + (pyfloat \<times> pyval \<times> pyval \<times> pyval)) \<times> world" where
  "eta_minutes gmaps origin destination depart_epoch w =
     (let q = driving_query origin destination depart_epoch;
          w' = w\<lparr>queries := queries w @ [q]\<rparr>
      in case gmaps q of
           Inl e \<Rightarrow> (Inl e, w')
         | Inr result \<Rightarrow> (leg_summary result, w'))"

section \<open>Library functions\<close>

text \<open>
  The standard library and \<^verbatim>\<open>datetime\<close> are not part of the program. What the program
  calls of them is a parameter of the model: the JSON codec (\<^verbatim>\<open>json.load\<close> of the text of
  the file, \<^verbatim>\<open>json.dump\<close>), \<^verbatim>\<open>str.split()\<close>, \<^verbatim>\<open>str.strip()\<close>, \<^verbatim>\<open>float(s)\<close>,
  \<^verbatim>\<open>str(v)\<close> of a value that is not a string, the format \<^verbatim>\<open>:.1f\<close>, the sum of a
  \<^verbatim>\<open>datetime\<close> and \<^verbatim>\<open>timedelta(minutes=m)\<close>, \<^verbatim>\<open>strftime('%-I:%M %p')\<close>, and the
  path of the preferences file as the operating system's messages quote it. A
  \<^verbatim>\<open>datetime\<close> is a number of microseconds.
\<close>

record pylib =
  json_loads :: "string \<Rightarrow> exn + pyval"
  json_dumps :: "pyval \<Rightarrow> string"
  str_split :: "string \<Rightarrow> string list"
  str_strip :: "string \<Rightarrow> string"
  float_of_str :: "string \<Rightarrow> exn + pyfloat"
  py_repr :: "pyval \<Rightarrow> string"
  format_1f :: "pyval \<Rightarrow> string"
  add_minutes :: "int \<Rightarrow> pyfloat \<Rightarrow> exn + int"
  strftime :: "int \<Rightarrow> exn + string"
  defaults_path :: string

definition py_str :: "pylib \<Rightarrow> pyval \<Rightarrow> string" where
  "py_str lib v = (case v of PStr s \<Rightarrow> s | _ \<Rightarrow> py_repr lib v)"

text \<open>\<^verbatim>\<open>not v\<close> is the negation of the truth value of \<open>v\<close>.\<close>

definition truthy :: "pyval \<Rightarrow> bool" where
  "truthy v = (case v of
       PNone \<Rightarrow> False
     | PBool b \<Rightarrow> b
     | PInt n \<Rightarrow> n \<noteq> 0
     | PFloat x \<Rightarrow> \<not> is_zero x
     | PStr s \<Rightarrow> s \<noteq> []
     | PList xs \<Rightarrow> xs \<noteq> []
     | PDict d \<Rightarrow> d \<noteq> [])"

text \<open>\<^verbatim>\<open>needle in hay\<close> on strings.\<close>

fun starts_with :: "string \<Rightarrow> string \<Rightarrow> bool" where
  "starts_with [] ys = True"
| "starts_with (x # xs) [] = False"
| "starts_with (x # xs) (y # ys) = (x = y \<and> starts_with xs ys)"

fun py_contains :: "string \<Rightarrow> string \<Rightarrow> bool" where
  "py_contains needle [] = (needle = [])"
| "py_contains needle (h # hs) = (starts_with needle (h # hs) \<or> py_contains needle hs)"

text \<open>\<^verbatim>\<open>input(prompt)\<close>: the prompt is written, one line is taken from standard input.\<close>

definition py_input :: "string \<Rightarrow> world \<Rightarrow> (exn + string) \<times> world" where
  "py_input prompt w =
     (let w' = w\<lparr>stdout := stdout w @ [Prompt prompt]\<rparr>
      in case stdin w of
           [] \<Rightarrow> (Inl (Exn EOFError ''EOF when reading a line''), w')
         | l # ls \<Rightarrow> (Inr l, w'\<lparr>stdin := ls\<rparr>))"

section \<open>JSON texts of dictionaries of strings\<close>

text \<open>
  The text \<^verbatim>\<open>json.dump\<close> writes for a string (\<^verbatim>\<open>ensure_ascii\<close> is on): between double
  quotes, with \<^verbatim>\<open>"\<close> and \<^verbatim>\<open>\\<close> behind a backslash, backspace, form feed, newline,
  carriage return and tab as \<^verbatim>\<open>\b \f \n \r \t\<close>, the other characters outside the
  printable ASCII range as \<^verbatim>\<open>\u00XX\<close> with lower-case hexadecimal digits, and every other
  character as it is. A character of the model is a code point below 256.
\<close>

definition dq :: string where
  "dq = [CHR 0x22]"

definition bs :: char where
  "bs = CHR 0x5C"

definition hex_digit :: "nat \<Rightarrow> char" where
  "hex_digit d = (if d < 10 then char_of (48 + d) else char_of (87 + d))"

definition escape_char :: "char \<Rightarrow> string" where
  "escape_char c =
     (if c = CHR 0x22 then [bs, CHR 0x22]
      else if c = bs then [bs, bs]
      else if c = CHR 0x08 then [bs, CHR ''b'']
      else if c = CHR 0x0C then [bs, CHR ''f'']
      else if c = CHR 0x0A then [bs, CHR ''n'']
      else if c = CHR 0x0D then [bs, CHR ''r'']
      else if c = CHR 0x09 then [bs, CHR ''t'']
      else if 32 \<le> (of_char c :: nat) \<and> (of_char c :: nat) \<le> 126 then [c]
      else [bs, CHR ''u'', CHR ''0'', CHR ''0'',
            hex_digit ((of_char c :: nat) div 16), hex_digit ((of_char c :: nat) mod 16)])"

definition json_string :: "string \<Rightarrow> string" where
  "json_string s = dq @ concat (map escape_char s) @ dq"

text \<open>The text \<^verbatim>\<open>json.dump\<close> writes for a dictionary whose values are strings: the items
  in order, \<^verbatim>\<open>": "\<close> after a key and \<^verbatim>\<open>", "\<close> between items.\<close>

definition json_item :: "string \<times> string \<Rightarrow> string" where
  "json_item kv = json_string (fst kv) @ '': '' @ json_string (snd kv)"

fun join_items :: "string list \<Rightarrow> string" where
  "join_items [] = []"
| "join_items [x] = x"
| "join_items (x # y # ys) = x @ '', '' @ join_items (y # ys)"

definition dumps_flat :: "(string \<times> string) list \<Rightarrow> string" where
  "dumps_flat kvs = ''{'' @ join_items (map json_item kvs) @ ''}''"

text \<open>
  Decoding, as \<^verbatim>\<open>json.load\<close> does it for a text that is one object whose values are
  strings. White space is allowed around the tokens. In a string, a backslash starts one
  of the escapes \<^verbatim>\<open>\" \\ \/ \b \f \n \r \t \uXXXX\<close>, a raw control character is an
  error, and a raw character or an escape beyond the range of the model (a raw byte above
  127, a code point above 255) is not decoded here: the result is \<open>None\<close>.
\<close>

definition is_ws :: "char \<Rightarrow> bool" where
  "is_ws c = (c = CHR '' '' \<or> c = CHR 0x09 \<or> c = CHR 0x0A \<or> c = CHR 0x0D)"

definition hex_value :: "char \<Rightarrow> nat option" where
  "hex_value c =
     (let n = (of_char c :: nat)
      in if 48 \<le> n \<and> n \<le> 57 then Some (n - 48)
         else if 97 \<le> n \<and> n \<le> 102 then Some (n - 87)
         else if 65 \<le> n \<and> n \<le> 70 then Some (n - 55)
         else None)"

definition hex4 :: "char \<Rightarrow> char \<Rightarrow> char \<Rightarrow> char \<Rightarrow> nat option" where
  "hex4 a b c d =
     Option.bind (hex_value a) (\<lambda>x3.
     Option.bind (hex_value b) (\<lambda>x2.
     Option.bind (hex_value c) (\<lambda>x1.
     Option.bind (hex_value d) (\<lambda>x0. Some (((x3 * 16 + x2) * 16 + x1) * 16 + x0)))))"

definition simple_escape :: "char \<Rightarrow> char option" where
  "simple_escape e =
     (if e = CHR 0x22 then Some (CHR 0x22)
      else if e = bs then Some bs
      else if e = CHR ''/'' then Some (CHR ''/'')
      else if e = CHR ''b'' then Some (CHR 0x08)
      else if e = CHR ''f'' then Some (CHR 0x0C)
      else if e = CHR ''n'' then Some (CHR 0x0A)
      else if e = CHR ''r'' then Some (CHR 0x0D)
      else if e = CHR ''t'' then Some (CHR 0x09)
      else None)"

definition push :: "char \<Rightarrow> (string \<times> string) option \<Rightarrow> (string \<times> string) option" where
  "push c r = map_option (\<lambda>p. (c # fst p, snd p)) r"

text \<open>\<open>string_body s\<close> reads a string from behind its opening quote: the decoded string and
  the text behind the closing quote.\<close>

fun string_body :: "string \<Rightarrow> (string \<times> string) option" where
  "string_body [] = None"
| "string_body [c] = (if c = CHR 0x22 then Some ([], []) else None)"
| "string_body (c # e # cs) =
     (if c = CHR 0x22 then Some ([], e # cs)
      else if c = bs then
        (if e = CHR ''u'' then
           (case cs of
              h3 # h2 # h1 # h0 # rest \<Rightarrow>
                (case hex4 h3 h2 h1 h0 of
                   Some n \<Rightarrow> (if n < 256 then push (char_of n) (string_body rest) else None)
                 | None \<Rightarrow> None)
            | _ \<Rightarrow> None)
         else (case simple_escape e of
                 Some x \<Rightarrow> push x (string_body cs)
               | None \<Rightarrow> None))
      else if (of_char c :: nat) < 32 \<or> 128 \<le> (of_char c :: nat) then None
      else push c (string_body (e # cs)))"

definition string_literal :: "string \<Rightarrow> (string \<times> string) option" where
  "string_literal s = (case s of [] \<Rightarrow> None | c # cs \<Rightarrow> if c = CHR 0x22 then string_body cs else None)"

text \<open>The items of an object from behind its opening brace to its closing brace; the
  fuel bounds the number of items.\<close>

fun items :: "nat \<Rightarrow> string \<Rightarrow> ((string \<times> string) list \<times> string) option" where
  "items 0 s = None"
| "items (Suc fuel) s =
     Option.bind (string_literal s) (\<lambda>key.
       (case dropWhile is_ws (snd key) of
          [] \<Rightarrow> None
        | colon # s1 \<Rightarrow>
            if colon \<noteq> CHR '':'' then None
            else Option.bind (string_literal (dropWhile is_ws s1)) (\<lambda>val.
              (case dropWhile is_ws (snd val) of
                 [] \<Rightarrow> None
               | sep # s2 \<Rightarrow>
                   if sep = CHR ''}'' then Some ([(fst key, fst val)], s2)
                   else if sep = CHR '','' then
                     map_option (\<lambda>r. ((fst key, fst val) # fst r, snd r))
                       (items fuel (dropWhile is_ws s2))
                   else None))))"

definition loads_flat :: "string \<Rightarrow> (string \<times> string) list option" where
  "loads_flat s = (case dropWhile is_ws s of
       [] \<Rightarrow> None
     | brace # s1 \<Rightarrow>
         if brace \<noteq> CHR ''{'' then None
         else (case dropWhile is_ws s1 of
                 [] \<Rightarrow> None
               | c # s2 \<Rightarrow>
                   if c = CHR ''}'' then (if dropWhile is_ws s2 = [] then Some [] else None)
                   else Option.bind (items (length (c # s2)) (c # s2)) (\<lambda>r.
                          if dropWhile is_ws (snd r) = [] then Some (fst r) else None)))"

text \<open>The dictionary of a list of decoded items: a repeated key keeps its place and takes
  the later value.\<close>

fun dict_update :: "string \<Rightarrow> pyval \<Rightarrow> (string \<times> pyval) list \<Rightarrow> (string \<times> pyval) list" where
  "dict_update k v [] = [(k, v)]"
| "dict_update k v (p # ps) = (if fst p = k then (k, v) # ps else p # dict_update k v ps)"

definition dict_of :: "(string \<times> string) list \<Rightarrow> (string \<times> pyval) list" where
  "dict_of kvs = foldl (\<lambda>d kv. dict_update (fst kv) (PStr (snd kv)) d) [] kvs"

section \<open>The preference store\<close>

definition quoted_path :: "pylib \<Rightarrow> string" where
  "quoted_path lib = sq @ defaults_path lib @ sq"

text \<open>\<^verbatim>\<open>open(DEFAULTS_FILE, 'r')\<close> followed by reading the whole file.\<close>

definition open_read :: "pylib \<Rightarrow> fs_state \<Rightarrow> exn + string" where
  "open_read lib f = (case f of
       HasFile content \<Rightarrow> Inr content
     | NoAccess \<Rightarrow>
         Inl (Exn PermissionError (''[Errno 13] Permission denied: '' @ quoted_path lib))
     | _ \<Rightarrow>
         Inl (Exn FileNotFoundError (''[Errno 2] No such file or directory: '' @ quoted_path lib)))"

definition load_defaults :: "pylib \<Rightarrow> fs_state \<Rightarrow> exn + pyval" where
  "load_defaults lib f =
     (case ebind (open_read lib f) (json_loads lib) of
        Inr v \<Rightarrow> Inr v
      | Inl e \<Rightarrow>
          if kind e = FileNotFoundError \<or> kind e = JSONDecodeError then Inr PNone
          else Inl e)"

text \<open>\<^verbatim>\<open>CONFIG_DIR.mkdir(parents=True, exist_ok=True)\<close>: an existing directory is left as
  it is, a missing one is created with its parents, if the operating system allows it.\<close>

definition mkdir_config :: "access \<Rightarrow> fs_state \<Rightarrow> exn + fs_state" where
  "mkdir_config a f =
     (if f = NoDir
      then (case mkdir_error a of None \<Rightarrow> Inr NoFile | Some e \<Rightarrow> Inl e)
      else Inr f)"

text \<open>\<^verbatim>\<open>open(DEFAULTS_FILE, 'w')\<close>: the file is created or truncated, so it is empty
  afterwards; the directory must be there.\<close>

definition open_write :: "pylib \<Rightarrow> access \<Rightarrow> fs_state \<Rightarrow> exn + fs_state" where
  "open_write lib a f = (case f of
       NoDir \<Rightarrow>
         Inl (Exn FileNotFoundError (''[Errno 2] No such file or directory: '' @ quoted_path lib))
     | NoFile \<Rightarrow> (case create_error a of None \<Rightarrow> Inr (HasFile []) | Some e \<Rightarrow> Inl e)
     | HasFile old \<Rightarrow> (case write_error a of None \<Rightarrow> Inr (HasFile []) | Some e \<Rightarrow> Inl e)
     | NoAccess \<Rightarrow>
         Inl (Exn PermissionError (''[Errno 13] Permission denied: '' @ quoted_path lib)))"

text \<open>What \<^verbatim>\<open>json.dump\<close> writes goes to the end of the open file.\<close>

definition write_text :: "string \<Rightarrow> fs_state \<Rightarrow> fs_state" where
  "write_text s f = (case f of HasFile content \<Rightarrow> HasFile (content @ s) | _ \<Rightarrow> f)"

definition defaults_object :: "pyval \<Rightarrow> pyval \<Rightarrow> pyval" where
  "defaults_object origin destination =
     PDict [(''origin'', origin), (''destination'', destination)]"

text \<open>\<^verbatim>\<open>save_defaults\<close>: the file system it leaves is returned also when it raises, since
  the directory may have been created before the file could not be.\<close>

definition save_defaults ::
  "pylib \<Rightarrow> pyval \<Rightarrow> pyval \<Rightarrow> access \<Rightarrow> fs_state \<Rightarrow> (exn + unit) \<times> fs_state" where
  "save_defaults lib origin destination a f =
     (case mkdir_config a f of
        Inl e \<Rightarrow> (Inl e, f)
      | Inr f1 \<Rightarrow>
          (case open_write lib a f1 of
             Inl e \<Rightarrow> (Inl e, f1)
           | Inr f2 \<Rightarrow>
               (Inr (), write_text (json_dumps lib (defaults_object origin destination)) f2)))"

definition get_addresses :: "pylib \<Rightarrow> world \<Rightarrow> (exn + pyval \<times> pyval) \<times> world" where
  "get_addresses lib w =
     (case load_defaults lib (fs w) of
        Inl e \<Rightarrow> (Inl e, w)
      | Inr defaults \<Rightarrow>
          if \<not> truthy defaults then
            (case py_input (''Enter origin address or '' @ sq @ ''lat,lng'' @ sq @ '': '')
                    (print ''No default addresses found. Please provide addresses.'' w) of
               (Inl e, w1) \<Rightarrow> (Inl e, w1)
             | (Inr line1, w1) \<Rightarrow>
                 (case py_input (''Enter destination address or '' @ sq @ ''lat,lng'' @ sq @ '': '') w1 of
                    (Inl e, w2) \<Rightarrow> (Inl e, w2)
                  | (Inr line2, w2) \<Rightarrow>
                      (Inr (PStr (str_strip lib line1), PStr (str_strip lib line2)), w2)))
          else
            (ebind (py_getitem_str defaults ''origin'') (\<lambda>origin.
             ebind (py_getitem_str defaults ''destination'') (\<lambda>destination.
               Inr (origin, destination))), w))"

section \<open>The command-line orchestrator\<close>

text \<open>The namespace \<^verbatim>\<open>parser.parse_args()\<close> returns; \<^verbatim>\<open>main\<close> is modelled from there.\<close>

record args =
  args_origin :: "string option"
  args_destination :: "string option"
  args_future :: "int option"
  args_defaults :: bool

definition arrow :: string where
  "arrow = '' '' @ [CHR 0xE2, CHR 0x86, CHR 0x92] @ '' ''"

text \<open>Lines 110 to 115: \<open>Inr None\<close> is the early \<^verbatim>\<open>return\<close>.\<close>

definition resolve_addresses ::
  "pylib \<Rightarrow> args \<Rightarrow> world \<Rightarrow> (exn + (pyval \<times> pyval) option) \<times> world" where
  "resolve_addresses lib a w =
     (case (args_origin a, args_destination a) of
        (Some origin, Some destination) \<Rightarrow> (Inr (Some (PStr origin, PStr destination)), w)
      | _ \<Rightarrow>
          if args_defaults a then
            (Inr None, print_help (print ''Error: Must provide addresses when using --defaults'' w))
          else
            (case get_addresses lib w of
               (Inl e, w') \<Rightarrow> (Inl e, w')
             | (Inr addresses, w') \<Rightarrow> (Inr (Some addresses), w')))"

text \<open>Lines 118 to 120.\<close>

definition save_if_requested ::
  "pylib \<Rightarrow> args \<Rightarrow> pyval \<Rightarrow> pyval \<Rightarrow> world \<Rightarrow> (exn + unit) \<times> world" where
  "save_if_requested lib a origin destination w =
     (if args_defaults a then
        (case save_defaults lib origin destination (access w) (fs w) of
           (Inl e, f) \<Rightarrow> (Inl e, w\<lparr>fs := f\<rparr>)
         | (Inr u, f) \<Rightarrow>
             (Inr (),
              print (''Saved default addresses: '' @ py_str lib origin @ arrow
                     @ py_str lib destination) (w\<lparr>fs := f\<rparr>)))
      else (Inr (), w))"

text \<open>\<^verbatim>\<open>float(distance.split()[0])\<close>, lines 131 and 145.\<close>

definition distance_miles :: "pylib \<Rightarrow> pyval \<Rightarrow> exn + pyfloat" where
  "distance_miles lib distance = (case distance of
       PStr s \<Rightarrow>
         (case str_split lib s of
            [] \<Rightarrow> Inl (Exn IndexError ''list index out of range'')
          | t # ts \<Rightarrow> float_of_str lib t)
     | _ \<Rightarrow> Inl (Exn AttributeError (sq @ type_name distance @ sq
                   @ '' object has no attribute '' @ sq @ ''split'' @ sq)))"

text \<open>Lines 132 and 133, and again 146 and 147:
  \<^verbatim>\<open>hours = eta / 60; avg_speed = distance_mi / hours if hours > 0 else 0\<close>.\<close>

definition avg_speed :: "pyfloat \<Rightarrow> pyfloat \<Rightarrow> exn + pyval" where
  "avg_speed distance_mi eta =
     ebind (py_truediv (PFloat eta) 60) (\<lambda>hours.
       if py_gt0 hours then ebind (float_div distance_mi hours) (\<lambda>v. Inr (PFloat v))
       else Inr (PInt 0))"

definition route_line :: "pylib \<Rightarrow> pyval \<Rightarrow> pyval \<Rightarrow> pyval \<Rightarrow> string" where
  "route_line lib formatted_origin formatted_destination distance =
     ''Route: '' @ py_str lib formatted_origin @ arrow @ py_str lib formatted_destination
     @ '' ('' @ py_str lib distance @ '')''"

definition eta_text :: "pylib \<Rightarrow> string \<Rightarrow> pyfloat \<Rightarrow> pyfloat \<Rightarrow> pyval \<Rightarrow> string" where
  "eta_text lib clock eta distance_mi speed =
     clock @ '' ('' @ format_1f lib (PFloat eta) @ '' min, ''
     @ format_1f lib (PFloat distance_mi) @ '' mi @ '' @ format_1f lib speed @ '' mph)''"

text \<open>Lines 143 to 149, the body of \<^verbatim>\<open>if args.future is not None\<close>; \<open>origin\<close> and
  \<open>destination\<close> are \<^verbatim>\<open>args.origin\<close> and \<^verbatim>\<open>args.destination\<close> as line 128 left them.\<close>

definition future_report ::
  "pylib \<Rightarrow> service \<Rightarrow> pyval \<Rightarrow> pyval \<Rightarrow> int \<Rightarrow> world \<Rightarrow> (exn + unit) \<times> world" where
  "future_report lib gmaps origin destination n w =
     (case eta_minutes gmaps origin destination (now w + n * 60) w of
        (Inl e, w1) \<Rightarrow> (Inl e, w1)
      | (Inr (future_eta, fo, fd, future_distance), w1) \<Rightarrow>
          (case ebind (distance_miles lib future_distance) (\<lambda>future_distance_mi.
                ebind (avg_speed future_distance_mi future_eta) (\<lambda>future_avg_speed.
                ebind (float_of_int n) (\<lambda>offset.
                ebind (add_minutes lib (current_time w) (float_add offset future_eta))
                  (\<lambda>future_arrival.
                ebind (strftime lib future_arrival) (\<lambda>clock.
                  Inr (''ETA in '' @ py_str lib (PInt n) @ '' min: ''
                       @ eta_text lib clock future_eta future_distance_mi future_avg_speed))))))
           of
             Inl e \<Rightarrow> (Inl e, w1)
           | Inr line \<Rightarrow> (Inr (), print line w1)))"

text \<open>Lines 123 to 149, the body of the \<^verbatim>\<open>try\<close>.\<close>

definition report ::
  "pylib \<Rightarrow> service \<Rightarrow> pyval \<Rightarrow> pyval \<Rightarrow> int option \<Rightarrow> world \<Rightarrow> (exn + unit) \<times> world" where
  "report lib gmaps origin destination future w =
     (case eta_minutes gmaps origin destination (now w) w of
        (Inl e, w1) \<Rightarrow> (Inl e, w1)
      | (Inr (current_eta, formatted_origin, formatted_destination, distance), w1) \<Rightarrow>
          (case ebind (distance_miles lib distance) (\<lambda>distance_mi.
                ebind (avg_speed distance_mi current_eta) (\<lambda>speed.
                ebind (add_minutes lib (current_time w) current_eta) (\<lambda>arrival_time.
                  Inr (distance_mi, speed, arrival_time))))
           of
             Inl e \<Rightarrow> (Inl e, w1)
           | Inr (distance_mi, speed, arrival_time) \<Rightarrow>
               (case strftime lib arrival_time of
                  Inl e \<Rightarrow>
                    (Inl e, print (route_line lib formatted_origin formatted_destination distance) w1)
                | Inr clock \<Rightarrow>
                    (let w2 = print (''Current ETA: ''
                                     @ eta_text lib clock current_eta distance_mi speed)
                               (print (route_line lib formatted_origin formatted_destination
                                         distance) w1)
                     in case future of
                          None \<Rightarrow> (Inr (), w2)
                        | Some n \<Rightarrow>
                            future_report lib gmaps formatted_origin formatted_destination n w2))))"

text \<open>Lines 150 to 153, the handler of \<^verbatim>\<open>except Exception as e\<close>.\<close>

definition handle_error :: "exn \<Rightarrow> world \<Rightarrow> world" where
  "handle_error e w =
     (let w1 = print (''Error: '' @ message e) w
      in if py_contains ''ZERO_RESULTS'' (message e)
         then print ''No route found between the specified addresses.'' w1
         else w1)"

text \<open>\<^verbatim>\<open>main\<close>: \<open>None\<close> when it returns, \<open>Some e\<close> when the exception \<open>e\<close> leaves it.\<close>

definition main :: "pylib \<Rightarrow> service \<Rightarrow> args \<Rightarrow> world \<Rightarrow> exn option \<times> world" where
  "main lib gmaps a w =
     (case resolve_addresses lib a w of
        (Inl e, w1) \<Rightarrow> (Some e, w1)
      | (Inr None, w1) \<Rightarrow> (None, w1)
      | (Inr (Some (origin, destination)), w1) \<Rightarrow>
          (case save_if_requested lib a origin destination w1 of
             (Inl e, w2) \<Rightarrow> (Some e, w2)
           | (Inr u, w2) \<Rightarrow>
               (case report lib gmaps origin destination (args_future a) w2 of
                  (Inl e, w3) \<Rightarrow> (None, handle_error e w3)
                | (Inr u', w3) \<Rightarrow> (None, w3))))"

section \<open>Predicates of the specification\<close>

text \<open>A distance text of the shape \<^verbatim>\<open><number> <unit>\<close>, such as \<^verbatim>\<open>32.4 mi\<close>: a decimal
  number, one space, a unit without spaces.\<close>

definition is_digit :: "char \<Rightarrow> bool" where
  "is_digit c = (48 \<le> (of_char c :: nat) \<and> (of_char c :: nat) \<le> 57)"

definition is_number :: "string \<Rightarrow> bool" where
  "is_number s =
     (let whole = takeWhile is_digit s; rest = dropWhile is_digit s
      in whole \<noteq> [] \<and>
         (case rest of
            [] \<Rightarrow> True
          | c # decimals \<Rightarrow> c = CHR ''.'' \<and> decimals \<noteq> [] \<and> list_all is_digit decimals))"

definition number_unit :: "string \<Rightarrow> bool" where
  "number_unit s =
     (let number = takeWhile (\<lambda>c. c \<noteq> CHR '' '') s; rest = dropWhile (\<lambda>c. c \<noteq> CHR '' '') s
      in is_number number \<and>
         (case rest of
            [] \<Rightarrow> False
          | c # word \<Rightarrow> word \<noteq> [] \<and> CHR '' '' \<notin> set word))"

text \<open>A loaded value has the key \<open>k\<close> when it is a dictionary with an entry for \<open>k\<close>.\<close>

definition has_key :: "pyval \<Rightarrow> string \<Rightarrow> bool" where
  "has_key v k = (case v of PDict d \<Rightarrow> map_of d k \<noteq> None | _ \<Rightarrow> False)"

text \<open>The operating system lets \<^verbatim>\<open>save_defaults\<close> write the preferences file.\<close>

definition saving_allowed :: "access \<Rightarrow> fs_state \<Rightarrow> bool" where
  "saving_allowed a f = (case f of
       NoDir \<Rightarrow> mkdir_error a = None \<and> create_error a = None
     | NoFile \<Rightarrow> create_error a = None
     | HasFile old \<Rightarrow> write_error a = None
     | NoAccess \<Rightarrow> False)"

text \<open>\<^verbatim>\<open>get_addresses\<close> fell back to prompting when it printed its notice.\<close>

definition prompted :: "pylib \<Rightarrow> world \<Rightarrow> bool" where
  "prompted lib w =
     (\<exists>rest. stdout (snd (get_addresses lib w))
        = stdout w @ Line ''No default addresses found. Please provide addresses.'' # rest)"

section \<open>A reference library for concrete runs\<close>

text \<open>
  Small implementations of the library functions, enough to run the model on ASCII inputs:
  decimal numbers, splitting and stripping at spaces, a 12-hour clock on microseconds since
  midnight, and the JSON codec of dictionaries of strings.
\<close>

fun digits_of :: "nat \<Rightarrow> string" where
  "digits_of n =
     (if n < 10 then [char_of (48 + n)]
      else digits_of (n div 10) @ [char_of (48 + n mod 10)])"

declare digits_of.simps [simp del]

definition int_text :: "int \<Rightarrow> string" where
  "int_text n = (if n < 0 then ''-'' @ digits_of (nat (- n)) else digits_of (nat n))"

definition decimal_value :: "string \<Rightarrow> nat" where
  "decimal_value s = foldl (\<lambda>n c. 10 * n + ((of_char c :: nat) - 48)) 0 s"

definition ref_repr :: "pyval \<Rightarrow> string" where
  "ref_repr v = (case v of
       PInt n \<Rightarrow> int_text n
     | PNone \<Rightarrow> ''None''
     | PBool b \<Rightarrow> (if b then ''True'' else ''False'')
     | _ \<Rightarrow> ''<object>'')"

definition ref_format_1f :: "pyval \<Rightarrow> string" where
  "ref_format_1f v = (case v of
       PInt n \<Rightarrow> int_text n @ ''.0''
     | PFloat (Fin r) \<Rightarrow>
         (let k = round_half_even (10 * \<bar>r\<bar>)
          in (if r < 0 then ''-'' else []) @ digits_of (nat (k div 10)) @ ''.''
             @ digits_of (nat (k mod 10)))
     | PFloat NegZero \<Rightarrow> ''-0.0''
     | PFloat PInf \<Rightarrow> ''inf''
     | PFloat NInf \<Rightarrow> ''-inf''
     | _ \<Rightarrow> ''nan'')"

fun split_from :: "string \<Rightarrow> string \<Rightarrow> string list" where
  "split_from word [] = (if word = [] then [] else [word])"
| "split_from word (c # cs) =
     (if c = CHR '' '' then (if word = [] then split_from [] cs else word # split_from [] cs)
      else split_from (word @ [c]) cs)"

definition ref_split :: "string \<Rightarrow> string list" where
  "ref_split s = split_from [] s"

definition ref_strip :: "string \<Rightarrow> string" where
  "ref_strip s =
     rev (dropWhile (\<lambda>c. c = CHR '' '') (rev (dropWhile (\<lambda>c. c = CHR '' '') s)))"

definition ref_float :: "string \<Rightarrow> exn + pyfloat" where
  "ref_float s =
     (if is_number s then
        (let whole = takeWhile is_digit s; decimals = drop (Suc (length whole)) s
         in Inr (to_float False
              (of_nat (decimal_value whole) + of_nat (decimal_value decimals) / 10 ^ length decimals)))
      else Inl (Exn ValueError (''could not convert string to float: '' @ sq @ s @ sq)))"

definition ref_add_minutes :: "int \<Rightarrow> pyfloat \<Rightarrow> exn + int" where
  "ref_add_minutes t m = (case m of
       Fin r \<Rightarrow> Inr (t + round_half_even (r * 60000000))
     | NegZero \<Rightarrow> Inr t
     | NaN \<Rightarrow> Inl (Exn ValueError ''cannot convert float NaN to integer'')
     | _ \<Rightarrow> Inl (Exn OverflowError ''cannot convert float infinity to integer''))"

definition ref_strftime :: "int \<Rightarrow> exn + string" where
  "ref_strftime t =
     (let h = (t div 3600000000) mod 24; m = (t div 60000000) mod 60
      in Inr (int_text (if h mod 12 = 0 then 12 else h mod 12) @ '':''
              @ (if m < 10 then ''0'' else []) @ int_text m
              @ (if h < 12 then '' AM'' else '' PM'')))"

definition ref_dumps :: "pyval \<Rightarrow> string" where
  "ref_dumps v = (case v of
       PDict d \<Rightarrow>
         dumps_flat (map (\<lambda>kv. (fst kv, case snd kv of PStr s \<Rightarrow> s | _ \<Rightarrow> ''null'')) d)
     | PStr s \<Rightarrow> json_string s
     | _ \<Rightarrow> ''null'')"

text \<open>A text \<open>loads_flat\<close> decodes is a dictionary of strings. Of the other texts, one with
  the byte \<open>0xFF\<close>, which no UTF-8 text contains, raises \<^verbatim>\<open>UnicodeDecodeError\<close> when it
  is read, \<^verbatim>\<open>null\<close> is \<^verbatim>\<open>None\<close>, and the rest is reported as no JSON.\<close>

definition ref_loads :: "string \<Rightarrow> exn + pyval" where
  "ref_loads s = (case loads_flat s of
       Some kvs \<Rightarrow> Inr (PDict (dict_of kvs))
     | None \<Rightarrow>
         if CHR 0xFF \<in> set s
         then Inl (Exn UnicodeDecodeError
                (sq @ ''utf-8'' @ sq @ '' codec can'' @ sq
                 @ ''t decode byte 0xff in position 0: invalid start byte''))
         else if dropWhile is_ws s = ''null'' then Inr PNone
         else Inl (Exn JSONDecodeError ''Expecting value: line 1 column 1 (char 0)''))"

definition ref_lib :: pylib where
  "ref_lib =
     \<lparr>json_loads = ref_loads, json_dumps = ref_dumps, str_split = ref_split,
      str_strip = ref_strip, float_of_str = ref_float, py_repr = ref_repr,
      format_1f = ref_format_1f, add_minutes = ref_add_minutes, strftime = ref_strftime,
      defaults_path = ''/home/user/.config/drive_time/defaults.json''\<rparr>"

text \<open>A directions response with one route of one leg, and a service that answers every
  request with it.\<close>

definition sample_distance :: "(string \<times> pyval) list" where
  "sample_distance = [(''text'', PStr ''7.5 mi''), (''value'', PInt 12070)]"

definition sample_duration :: "int \<Rightarrow> (string \<times> pyval) list" where
  "sample_duration seconds = [(''text'', PStr ''20 mins''), (''value'', PInt seconds)]"

definition sample_leg :: "int \<Rightarrow> (string \<times> pyval) list" where
  "sample_leg seconds =
     [(''distance'', PDict sample_distance),
      (''duration_in_traffic'', PDict (sample_duration seconds)),
      (''end_address'', PStr ''Cupertino, CA, USA''),
      (''start_address'', PStr ''Mountain View, CA, USA'')]"

definition sample_route :: "int \<Rightarrow> (string \<times> pyval) list" where
  "sample_route seconds = [(''legs'', PList [PDict (sample_leg seconds)])]"

definition sample_result :: "int \<Rightarrow> pyval" where
  "sample_result seconds = PList [PDict (sample_route seconds)]"

definition sample_gmaps :: "int \<Rightarrow> service" where
  "sample_gmaps seconds q = Inr (sample_result seconds)"

text \<open>A response for a long trip: the service writes the distance with a thousands
  separator.\<close>

definition long_trip_leg :: "(string \<times> pyval) list" where
  "long_trip_leg =
     [(''distance'', PDict [(''text'', PStr ''2,137 mi''), (''value'', PInt 3439000)]),
      (''duration_in_traffic'', PDict [(''text'', PStr ''1 day 6 hours''), (''value'', PInt 108000)]),
      (''end_address'', PStr ''Los Angeles, CA, USA''),
      (''start_address'', PStr ''Chicago, IL, USA'')]"

definition long_trip_gmaps :: service where
  "long_trip_gmaps q = Inr (PList [PDict [(''legs'', PList [PDict long_trip_leg])]])"


definition sample_world :: "fs_state \<Rightarrow> string list \<Rightarrow> world" where
  "sample_world f input_lines =
     \<lparr>fs = f,
      access = \<lparr>mkdir_error = None, create_error = None, write_error = None\<rparr>,
      stdin = input_lines, stdout = [], queries = [], now = 1700000000,
      current_time = 32400000000\<rparr>"

section \<open>Rounding to binary64\<close>

lemma pow2_powi: "pow2 k = 2 powi k"
  by (simp add: pow2_def power_int_def inverse_eq_divide power_one_over)

lemma pow2_pos: "0 < pow2 k"
  by (simp add: pow2_powi)

lemma pow2_diff: "pow2 (a - b) = pow2 a / pow2 b"
  by (simp add: pow2_powi power_int_diff)

lemma pow2_mono: "a \<le> b \<Longrightarrow> pow2 a \<le> pow2 b"
  by (simp add: pow2_powi power_int_increasing)

lemma pow2_nat: "0 \<le> k \<Longrightarrow> pow2 k = 2 ^ nat k"
  by (simp add: pow2_def)

lemma round_half_even_nonneg: "0 \<le> x \<Longrightarrow> 0 \<le> round_half_even x"
  by (auto simp: round_half_even_def Let_def)

lemma round_half_even_upper: "of_int (round_half_even x) \<le> x + 1 / 2"
  unfolding round_half_even_def Let_def
  by (auto simp: not_less) linarith+

lemma nearest_double_nonneg: "0 \<le> a \<Longrightarrow> 0 \<le> nearest_double a"
  unfolding nearest_double_def Let_def
  by (intro mult_nonneg_nonneg) (auto simp: round_half_even_nonneg pow2_pos less_imp_le)

lemma bit_length_nonneg: "0 \<le> bit_length n"
proof (induction n rule: bit_length.induct)
  case (1 n)
  then show ?case by (subst bit_length.simps) auto
qed

lemma bit_length_pos: "0 < n \<Longrightarrow> 0 < bit_length n"
  using bit_length_nonneg [of "n div 2"] by (subst bit_length.simps) auto

lemma bit_length_bounds:
  "0 < n \<Longrightarrow> 2 ^ nat (bit_length n - 1) \<le> n \<and> n < 2 ^ nat (bit_length n)"
proof (induction n rule: bit_length.induct)
  case (1 n)
  show ?case
  proof (cases "n = 1")
    case True
    then show ?thesis
      by (simp add: bit_length.simps[of 1] bit_length.simps[of 0])
  next
    case False
    with "1.prems" have half: "0 < n div 2" by simp
    then have ih: "2 ^ nat (bit_length (n div 2) - 1) \<le> n div 2"
         "n div 2 < 2 ^ nat (bit_length (n div 2))"
      using "1.IH" "1.prems" by auto
    have bl: "bit_length n = 1 + bit_length (n div 2)"
      using "1.prems" by (subst bit_length.simps) simp
    have pos: "0 < bit_length (n div 2)" using half by (rule bit_length_pos)
    have e1: "nat (bit_length n - 1) = Suc (nat (bit_length (n div 2) - 1))"
      using bl pos by simp
    have e2: "nat (bit_length n) = Suc (nat (bit_length (n div 2)))"
      using bl pos by simp
    show ?thesis
      unfolding e1 e2 using ih by auto
  qed
qed

lemma ilog2_lower: assumes "0 < a" shows "pow2 (ilog2 a) \<le> a"
proof -
  obtain p q where pq: "quotient_of a = (p, q)" by (cases "quotient_of a")
  have q: "0 < q" using pq by (rule quotient_of_denom_pos)
  have a: "a = of_int p / of_int q" using pq by (rule quotient_of_div)
  have p: "0 < p" using assms q unfolding a by (simp add: zero_less_divide_iff)
  define d where "d = bit_length p - bit_length q"
  have il: "ilog2 a = (if pow2 d \<le> a then d else d - 1)"
    by (simp add: ilog2_def pq d_def Let_def)
  have low: "pow2 (d - 1) \<le> a"
  proof -
    have bp: "0 < bit_length p" and bq: "0 < bit_length q"
      using p q by (auto intro: bit_length_pos)
    have "d - 1 = (bit_length p - 1) - bit_length q" by (simp add: d_def)
    then have "pow2 (d - 1) = pow2 (bit_length p - 1) / pow2 (bit_length q)"
      by (simp add: pow2_diff)
    also have "\<dots> = 2 ^ nat (bit_length p - 1) / 2 ^ nat (bit_length q)"
      using bp bq by (simp add: pow2_nat)
    also have "\<dots> \<le> of_int p / of_int q"
    proof -
      have "(2::int) ^ nat (bit_length p - 1) \<le> p" using bit_length_bounds [OF p] by simp
      then have "(of_int ((2::int) ^ nat (bit_length p - 1)) :: rat) \<le> of_int p"
        by (simp only: of_int_le_iff)
      then have h1: "(2::rat) ^ nat (bit_length p - 1) \<le> of_int p" by simp
      have "q < 2 ^ nat (bit_length q)" using bit_length_bounds [OF q] by simp
      then have "(of_int q :: rat) < of_int ((2::int) ^ nat (bit_length q))"
        by (simp only: of_int_less_iff)
      then have h2: "(of_int q :: rat) \<le> 2 ^ nat (bit_length q)" by simp
      have h3: "(0::rat) < of_int q" using q by simp
      have h4: "(0::rat) \<le> of_int p" using p by simp
      show ?thesis by (rule frac_le [OF h4 h1 h3 h2])
    qed
    finally show ?thesis by (simp add: a)
  qed
  show ?thesis using low by (simp add: il)
qed

lemma nearest_double_upper:
  assumes "0 < a"
  shows "nearest_double a \<le> a + pow2 (max (ilog2 a) (- 1022) - 52) / 2"
proof -
  define q where "q = pow2 (max (ilog2 a) (- 1022) - 52)"
  have q: "0 < q" by (simp add: q_def pow2_pos)
  have "of_int (round_half_even (a / q)) * q \<le> (a / q + 1 / 2) * q"
    using round_half_even_upper [of "a / q"] q by (simp only: mult_le_cancel_right_pos)
  also have "\<dots> = a + q / 2" using q by (simp add: field_simps)
  finally show ?thesis by (simp add: nearest_double_def Let_def q_def)
qed

lemma nearest_double_bounded:
  assumes "0 < a" and "a \<le> 2 ^ 1000"
  shows "nearest_double a < 2 ^ 1024"
proof -
  define e where "e = max (ilog2 a) (- 1022)"
  have "pow2 e \<le> 2 ^ 1000"
  proof (cases "ilog2 a \<le> - 1022")
    case True
    then have "e = - 1022" by (simp add: e_def)
    then have "pow2 e \<le> pow2 0" by (simp add: pow2_mono)
    also have "\<dots> \<le> 2 ^ 1000" by (simp add: pow2_def)
    finally show ?thesis .
  next
    case False
    then have "e = ilog2 a" by (simp add: e_def)
    then show ?thesis using ilog2_lower [OF assms(1)] assms(2) by simp
  qed
  moreover have "pow2 (e - 52) \<le> pow2 e" by (simp add: pow2_mono)
  ultimately have "pow2 (e - 52) \<le> 2 ^ 1000" by simp
  then have "a + pow2 (e - 52) / 2 \<le> 2 ^ 1000 + 2 ^ 1000 / 2" using assms(2) by simp
  also have "\<dots> < (2::rat) ^ 1024" by simp
  finally show ?thesis using nearest_double_upper [OF assms(1)] by (simp add: e_def)
qed

lemma to_float_finite:
  assumes "0 \<le> a" and "a \<le> 2 ^ 1000"
  shows "\<not> is_inf (to_float neg a)"
proof (cases "a = 0")
  case True
  then show ?thesis by (simp add: to_float_def is_inf_def)
next
  case False
  with assms(1) have "0 < a" by simp
  then have "\<not> 2 ^ 1024 \<le> nearest_double a"
    using nearest_double_bounded [OF _ assms(2)] by (simp add: not_le)
  then show ?thesis by (simp add: to_float_def is_inf_def Let_def)
qed

lemma to_float_ge0: "0 \<le> a \<Longrightarrow> py_ge0 (to_float False a)"
  using nearest_double_nonneg [of a]
  by (auto simp: to_float_def py_ge0_def Let_def)

lemma int_truediv_60:
  assumes "0 \<le> s" and "s < 2 ^ 63"
  shows "int_truediv s 60 = Inr (to_float False (of_int s / 60))"
proof -
  have "(of_int s :: rat) < of_int (2 ^ 63)" using assms(2) by (simp only: of_int_less_iff)
  then have "(of_int s :: rat) / 60 \<le> 2 ^ 1000" by simp
  moreover have "0 \<le> (of_int s :: rat) / 60" using assms(1) by simp
  ultimately have "\<not> is_inf (to_float False (of_int s / 60))" by (intro to_float_finite)
  moreover have "\<bar>(of_int s :: rat) / of_int 60\<bar> = of_int s / 60" using assms(1) by simp
  moreover have "((s < 0) \<noteq> ((60::int) < 0)) = False" using assms(1) by simp
  ultimately show ?thesis by (simp add: int_truediv_def Let_def)
qed

lemma py_round1_ge0:
  assumes "py_ge0 x"
  shows "py_ge0 (py_round1 x)"
proof (cases x)
  case (Fin r)
  with assms have r: "0 \<le> r" by (simp add: py_ge0_def)
  then have "0 \<le> (of_int (round_half_even (10 * \<bar>r\<bar>)) :: rat) / 10"
    by (simp add: round_half_even_nonneg)
  then have "py_ge0 (to_float False (of_int (round_half_even (10 * \<bar>r\<bar>)) / 10))"
    by (rule to_float_ge0)
  moreover have "(r < 0) = False" using r by simp
  ultimately show ?thesis by (simp add: py_round1_def Fin)
qed (use assms in \<open>simp_all add: py_round1_def\<close>)

section \<open>Sequencing and indexing\<close>

lemma ebind_Inr [simp]: "ebind (Inr x) f = f x"
  by (simp add: ebind_def)

lemma ebind_Inl [simp]: "ebind (Inl e) f = Inl e"
  by (simp add: ebind_def)

lemma getitem0_cons: "py_getitem_int (PList (x # xs)) 0 = Inr x"
  by (simp add: py_getitem_int_def py_index_def)

lemma getitem_str_dict: "map_of d k = Some v \<Longrightarrow> py_getitem_str (PDict d) k = Inr v"
  by (simp add: py_getitem_str_def)

section \<open>The error of rounding\<close>

lemma round_half_even_lower: "x - 1 / 2 \<le> of_int (round_half_even x)"
  unfolding round_half_even_def Let_def
  by (auto simp: not_less) linarith+

lemma round_half_even_error: "\<bar>of_int (round_half_even x) - x\<bar> \<le> 1 / 2"
  using round_half_even_lower [of x] round_half_even_upper [of x] by linarith

lemma ilog2_upper: assumes "0 < a" shows "a < pow2 (ilog2 a + 1)"
proof -
  obtain p q where pq: "quotient_of a = (p, q)" by (cases "quotient_of a")
  have q: "0 < q" using pq by (rule quotient_of_denom_pos)
  have a: "a = of_int p / of_int q" using pq by (rule quotient_of_div)
  have p: "0 < p" using assms q unfolding a by (simp add: zero_less_divide_iff)
  define d where "d = bit_length p - bit_length q"
  have il: "ilog2 a = (if pow2 d \<le> a then d else d - 1)"
    by (simp add: ilog2_def pq d_def Let_def)
  have up: "a < pow2 (d + 1)"
  proof -
    have bp: "0 < bit_length p" and bq: "0 < bit_length q"
      using p q by (auto intro: bit_length_pos)
    have "(of_int p :: rat) < of_int ((2::int) ^ nat (bit_length p))"
      using bit_length_bounds [OF p] by (simp only: of_int_less_iff)
    then have h1: "(of_int p :: rat) < 2 ^ nat (bit_length p)" by simp
    have "(of_int ((2::int) ^ nat (bit_length q - 1)) :: rat) \<le> of_int q"
      using bit_length_bounds [OF q] by (simp only: of_int_le_iff)
    then have h2: "(2::rat) ^ nat (bit_length q - 1) \<le> of_int q" by simp
    have h3: "(0::rat) < 2 ^ nat (bit_length q - 1)" by simp
    have "of_int p / of_int q < (2::rat) ^ nat (bit_length p) / 2 ^ nat (bit_length q - 1)"
      by (rule frac_less) (use h1 h2 h3 p in simp_all)
    also have "\<dots> = pow2 (bit_length p) / pow2 (bit_length q - 1)"
      using bp bq by (simp add: pow2_nat)
    also have "\<dots> = pow2 (bit_length p - (bit_length q - 1))"
      by (simp add: pow2_diff)
    also have "bit_length p - (bit_length q - 1) = d + 1" by (simp add: d_def)
    finally show ?thesis by (simp add: a)
  qed
  show ?thesis
  proof (cases "pow2 d \<le> a")
    case True
    then show ?thesis using up by (simp add: il)
  next
    case False
    then show ?thesis by (simp add: il not_le)
  qed
qed

lemma ilog2_normal: assumes "1 / 2 ^ 1022 \<le> a" shows "- 1022 \<le> ilog2 a"
proof (rule ccontr)
  assume "\<not> - 1022 \<le> ilog2 a"
  then have "ilog2 a + 1 \<le> - 1022" by simp
  then have "pow2 (ilog2 a + 1) \<le> pow2 (- 1022)" by (rule pow2_mono)
  moreover have "0 < a" using assms by (rule less_le_trans [rotated]) simp
  ultimately have "a < pow2 (- 1022)" using ilog2_upper [of a] by simp
  then show False using assms by (simp add: pow2_def)
qed

lemma nearest_double_error:
  assumes "1 / 2 ^ 1022 \<le> a"
  shows "\<bar>nearest_double a - a\<bar> \<le> a / 2 ^ 53"
proof -
  have a: "0 < a" using assms by (rule less_le_trans [rotated]) simp
  define q where "q = pow2 (ilog2 a - 52)"
  have q: "0 < q" by (simp add: q_def pow2_pos)
  have e: "max (ilog2 a) (- 1022) = ilog2 a" using ilog2_normal [OF assms] by simp
  have nd: "nearest_double a = of_int (round_half_even (a / q)) * q"
    by (simp add: nearest_double_def Let_def e q_def)
  have "of_int (round_half_even (a / q)) * q - a
      = (of_int (round_half_even (a / q)) - a / q) * q"
    using q by (simp add: left_diff_distrib)
  then have "\<bar>of_int (round_half_even (a / q)) * q - a\<bar>
      = \<bar>of_int (round_half_even (a / q)) - a / q\<bar> * \<bar>q\<bar>"
    by (simp only: abs_mult)
  also have "\<dots> = \<bar>of_int (round_half_even (a / q)) - a / q\<bar> * q"
    using q by simp
  also have "\<dots> \<le> 1 / 2 * q"
    using round_half_even_error [of "a / q"] q by (simp only: mult_le_cancel_right_pos)
  also have "\<dots> = pow2 (ilog2 a) / 2 ^ 53"
  proof -
    have "pow2 52 = 2 ^ 52" by (simp add: pow2_def)
    then show ?thesis by (simp add: q_def pow2_diff)
  qed
  also have "\<dots> \<le> a / 2 ^ 53"
    using ilog2_lower [OF a] by (simp add: divide_right_mono)
  finally show ?thesis by (simp add: nd)
qed

lemma nearest_double_0: "nearest_double 0 = 0"
  by (simp add: nearest_double_def Let_def round_half_even_def)

lemma to_float_False_Fin:
  assumes "0 \<le> a" and "a \<le> 2 ^ 1000"
  shows "to_float False a = Fin (nearest_double a)"
proof (cases "a = 0")
  case True
  then show ?thesis by (simp add: to_float_def nearest_double_0)
next
  case False
  with assms(1) have "0 < a" by simp
  then have "\<not> 2 ^ 1024 \<le> nearest_double a"
    using nearest_double_bounded [OF _ assms(2)] by (simp add: not_le)
  then show ?thesis using False by (simp add: to_float_def Let_def)
qed

lemma nearest_double_close:
  assumes "a = 0 \<or> 1 / 2 ^ 1022 \<le> a"
  shows "\<bar>nearest_double a - a\<bar> \<le> a / 2 ^ 53"
  using assms nearest_double_error [of a] by (auto simp: nearest_double_0)

text \<open>Dividing by 60 and rounding to one decimal, in numbers.\<close>

lemma minutes_rounded:
  assumes "0 \<le> s" and "s < 2 ^ 63"
  shows "\<exists>e k. py_round1 (to_float False (of_int s / 60)) = Fin e \<and> 0 \<le> e \<and> 0 \<le> k
     \<and> \<bar>e - of_int k / 10\<bar> \<le> of_int k / 10 / 2 ^ 53
     \<and> \<bar>(of_int k :: rat) / 10 - of_int s / 60\<bar> \<le> 1 / 20 + of_int s / 60 / 2 ^ 53"
proof -
  define a :: rat where "a = of_int s / 60"
  define r where "r = nearest_double a"
  define k where "k = round_half_even (10 * r)"
  define e where "e = nearest_double (of_int k / 10)"
  have "(of_int s :: rat) < of_int (2 ^ 63)" using assms(2) by (simp only: of_int_less_iff)
  then have a63: "a < 2 ^ 63" by (simp add: a_def)
  have a0: "0 \<le> a" using assms(1) by (simp add: a_def)
  have m: "to_float False a = Fin r"
    unfolding r_def using a0 a63 by (intro to_float_False_Fin) simp_all
  have r0: "0 \<le> r" unfolding r_def using a0 by (rule nearest_double_nonneg)
  have a_grid: "a = 0 \<or> 1 / 2 ^ 1022 \<le> a"
  proof (cases "s = 0")
    case True
    then show ?thesis by (simp add: a_def)
  next
    case False
    with assms(1) have "1 \<le> s" by simp
    then have "(1::rat) \<le> of_int s" by simp
    then have "(1::rat) / 60 \<le> a" by (simp add: a_def)
    moreover have "(1::rat) / 2 ^ 1022 \<le> 1 / 60" by simp
    ultimately show ?thesis by linarith
  qed
  have ra: "\<bar>r - a\<bar> \<le> a / 2 ^ 53"
    unfolding r_def using a_grid by (rule nearest_double_close)
  have "a / 2 ^ 53 \<le> a" using a0 by (simp add: field_simps)
  with ra have "r \<le> a + a" by linarith
  also have "\<dots> < 2 ^ 63 + 2 ^ 63" using a63 by simp
  finally have r64: "r < 2 ^ 64" by simp
  have k0: "0 \<le> k" unfolding k_def using r0 by (intro round_half_even_nonneg) simp
  have "\<bar>of_int k - 10 * r\<bar> \<le> 1 / 2" unfolding k_def by (rule round_half_even_error)
  then have kr: "\<bar>of_int k / 10 - r\<bar> \<le> 1 / 20" by (simp add: field_simps abs_le_iff)
  have "(of_int k :: rat) / 10 \<le> r + 1 / 20" using kr by linarith
  also have "\<dots> \<le> 2 ^ 64 + 1 / 20" using r64 by simp
  also have "\<dots> \<le> 2 ^ 1000" by simp
  finally have k_small: "(of_int k :: rat) / 10 \<le> 2 ^ 1000" .
  have k_nonneg: "0 \<le> (of_int k :: rat) / 10" using k0 by simp
  have round: "py_round1 (Fin r) = Fin e"
    unfolding e_def k_def
    using r0 to_float_False_Fin [OF k_nonneg k_small]
    by (simp add: py_round1_def k_def)
  have e0: "0 \<le> e" unfolding e_def using k_nonneg by (rule nearest_double_nonneg)
  have k_grid: "(of_int k :: rat) / 10 = 0 \<or> 1 / 2 ^ 1022 \<le> (of_int k :: rat) / 10"
  proof (cases "k = 0")
    case True
    then show ?thesis by simp
  next
    case False
    with k0 have "1 \<le> k" by simp
    then have "(1::rat) \<le> of_int k" by simp
    then have "(1::rat) / 10 \<le> of_int k / 10" by simp
    moreover have "(1::rat) / 2 ^ 1022 \<le> 1 / 10" by simp
    ultimately show ?thesis by linarith
  qed
  have ek: "\<bar>e - of_int k / 10\<bar> \<le> of_int k / 10 / 2 ^ 53"
    unfolding e_def using k_grid by (rule nearest_double_close)
  have ka: "\<bar>of_int k / 10 - a\<bar> \<le> 1 / 20 + a / 2 ^ 53" using kr ra by linarith
  have "py_round1 (to_float False a) = Fin e" by (simp add: m round)
  with e0 k0 ek ka show ?thesis
    unfolding a_def by blast
qed

section \<open>Writing and reading a dictionary of strings\<close>

lemma hex_value_digit: "d < 16 \<Longrightarrow> hex_value (hex_digit d) = Some d"
  by (auto simp: hex_value_def hex_digit_def Let_def)

lemma hex_value_0: "hex_value CHR ''0'' = Some 0"
  by (simp add: hex_value_def)

lemma hex4_byte:
  "hex4 CHR ''0'' CHR ''0'' (hex_digit ((of_char c :: nat) div 16)) (hex_digit ((of_char c :: nat) mod 16))
     = Some (of_char c)"
proof -
  have "n div 16 < 16" if "n < 256" for n :: nat
    using that by arith
  then have "(of_char c :: nat) div 16 < 16" by simp
  then show ?thesis
    by (simp add: hex4_def hex_value_0 hex_value_digit)
qed

lemma push_None [simp]: "push c None = None"
  by (simp add: push_def)

lemma push_Some [simp]: "push c (Some (s, r)) = Some (c # s, r)"
  by (simp add: push_def)

lemma string_body_escape: "string_body (escape_char c @ t) = push c (string_body t)"
proof -
  have plain: "string_body (c # t) = push c (string_body t)"
    if "c \<noteq> CHR 0x22" "c \<noteq> bs" "32 \<le> (of_char c :: nat)" "(of_char c :: nat) \<le> 126"
    using that by (cases t) simp_all
  have hex: "string_body (bs # CHR ''u'' # CHR ''0'' # CHR ''0'' # h1 # h0 # t)
      = push c (string_body t)"
    if "hex4 CHR ''0'' CHR ''0'' h1 h0 = Some (of_char c)" for h1 h0
    using that by (simp add: bs_def)
  show ?thesis
    unfolding escape_char_def
    using plain hex [OF hex4_byte]
    by (auto simp: bs_def simple_escape_def)
qed

lemma string_body_closing: "string_body (dq @ rest) = Some ([], rest)"
  by (cases rest) (simp_all add: dq_def)

lemma string_body_json: "string_body (concat (map escape_char s) @ dq @ rest) = Some (s, rest)"
  by (induction s) (simp_all add: string_body_closing string_body_escape)

lemma string_literal_json: "string_literal (json_string s @ rest) = Some (s, rest)"
  using string_body_json [of s rest]
  by (simp add: string_literal_def json_string_def dq_def)

lemma json_string_head: "json_string s @ r = CHR 0x22 # concat (map escape_char s) @ CHR 0x22 # r"
  by (simp add: json_string_def dq_def)

lemma ws_json_string: "dropWhile is_ws (json_string s @ r) = json_string s @ r"
  by (simp add: json_string_head is_ws_def)

lemma json_item_head: "\<exists>t. json_item kv @ r = CHR 0x22 # t"
  by (simp add: json_item_def json_string_head)

lemma join_items_head:
  "kvs \<noteq> [] \<Longrightarrow> \<exists>t. join_items (map json_item kvs) @ r = CHR 0x22 # t"
proof (cases kvs)
  case Nil
  then show "kvs \<noteq> [] \<Longrightarrow> ?thesis" by simp
next
  case (Cons kv rest)
  show ?thesis
  proof (cases rest)
    case Nil
    then show ?thesis using json_item_head [of kv r] by (simp add: Cons)
  next
    case (Cons kv' rest')
    then show ?thesis
      using json_item_head [of kv "'', '' @ join_items (map json_item (kv' # rest')) @ r"]
      by (simp add: \<open>kvs = kv # rest\<close>)
  qed
qed

lemma ws_join_items:
  assumes "kvs \<noteq> []"
  shows "dropWhile is_ws (join_items (map json_item kvs) @ r) = join_items (map json_item kvs) @ r"
proof -
  obtain t where "join_items (map json_item kvs) @ r = CHR 0x22 # t"
    using join_items_head [OF assms] by blast
  then show ?thesis by (simp add: is_ws_def)
qed

lemma items_one:
  "items (Suc fuel) (json_item (k, v) @ CHR ''}'' # r) = Some ([(k, v)], r)"
  by (simp add: json_item_def string_literal_json ws_json_string is_ws_def)

lemma items_more:
  "items (Suc fuel) (json_item (k, v) @ '', '' @ t)
     = map_option (\<lambda>r. ((k, v) # fst r, snd r)) (items fuel (dropWhile is_ws t))"
  by (simp add: json_item_def string_literal_json ws_json_string is_ws_def)

declare items.simps [simp del]

lemma items_json:
  "kvs \<noteq> [] \<Longrightarrow> length kvs \<le> fuel \<Longrightarrow>
     items fuel (join_items (map json_item kvs) @ CHR ''}'' # r) = Some (kvs, r)"
proof (induction kvs arbitrary: fuel)
  case Nil
  then show ?case by simp
next
  case (Cons kv rest)
  obtain k v where kv: "kv = (k, v)" by (cases kv)
  obtain n where fuel: "fuel = Suc n" using Cons.prems(2) by (cases fuel) auto
  show ?case
  proof (cases rest)
    case Nil
    then show ?thesis by (simp add: kv fuel items_one)
  next
    case (Cons kv' rest')
    have "items n (join_items (map json_item rest) @ CHR ''}'' # r) = Some (rest, r)"
      using Cons.IH [of n] Cons.prems(2) Cons by (simp add: fuel)
    moreover have "dropWhile is_ws (join_items (map json_item rest) @ CHR ''}'' # r)
        = join_items (map json_item rest) @ CHR ''}'' # r"
      using Cons by (intro ws_join_items) simp
    ultimately show ?thesis
      using items_more [of n k v "join_items (map json_item rest) @ CHR ''}'' # r"]
      by (simp add: kv fuel Cons)
  qed
qed

lemma length_join_items: "length kvs \<le> length (join_items (map json_item kvs))"
proof (induction kvs rule: induct_list012)
  case 1
  then show ?case by simp
next
  case (2 kv)
  then show ?case by (simp add: json_item_def json_string_def dq_def)
next
  case (3 kv kv' rest)
  then show ?case by (simp add: json_item_def json_string_def dq_def)
qed

text \<open>Decoding reads back every dictionary of strings that has been written.\<close>

lemma loads_flat_dumps_flat: "loads_flat (dumps_flat kvs) = Some kvs"
proof (cases "kvs = []")
  case True
  then show ?thesis by (simp add: loads_flat_def dumps_flat_def is_ws_def)
next
  case False
  let ?body = "join_items (map json_item kvs) @ ''}''"
  obtain t where head: "?body = CHR 0x22 # t"
    using join_items_head [OF False] by blast
  have fuel: "length kvs \<le> length ?body"
    using length_join_items [of kvs] by simp
  have "items (length ?body) ?body = Some (kvs, [])"
    using items_json [OF False fuel, of "[]"] by simp
  then have "items (length (CHR 0x22 # t)) (CHR 0x22 # t) = Some (kvs, [])"
    by (simp only: head)
  then show ?thesis
    by (simp add: loads_flat_def dumps_flat_def is_ws_def head)
qed

lemma dict_of_defaults:
  "dict_of [(''origin'', origin), (''destination'', destination)]
     = [(''origin'', PStr origin), (''destination'', PStr destination)]"
  by (simp add: dict_of_def)

section \<open>Average speed\<close>

lemma bit_length_60: "bit_length 60 = 6"
  by (simp add: bit_length.simps)

lemma bit_length_1: "bit_length 1 = 1"
  by (simp add: bit_length.simps)

lemma nearest_double_60: "nearest_double 60 = 60"
  by (simp add: nearest_double_def ilog2_def bit_length_60 bit_length_1 pow2_def
      round_half_even_def Let_def)

lemma float_of_int_60: "float_of_int 60 = Inr (Fin 60)"
  by (simp add: float_of_int_def to_float_def nearest_double_60 is_inf_def Let_def)

lemma float_div_nonzero: "\<not> is_zero b \<Longrightarrow> \<exists>v. float_div a b = Inr v"
  by (simp add: float_div_def)

lemma py_gt0_nonzero: "py_gt0 x \<Longrightarrow> \<not> is_zero x"
  by (auto simp: py_gt0_def is_zero_def)

lemma hours_defined: "\<exists>hours. py_truediv (PFloat eta) 60 = Inr hours"
  using float_div_nonzero [of "Fin 60" eta]
  by (simp add: py_truediv_def float_of_int_60 is_zero_def)

lemma avg_speed_total: "\<exists>v. avg_speed distance_mi eta = Inr v"
proof -
  obtain hours where h: "py_truediv (PFloat eta) 60 = Inr hours"
    using hours_defined by blast
  show ?thesis
  proof (cases "py_gt0 hours")
    case True
    then obtain v where "float_div distance_mi hours = Inr v"
      using float_div_nonzero py_gt0_nonzero by blast
    then show ?thesis using True by (simp add: avg_speed_def h)
  next
    case False
    then show ?thesis by (simp add: avg_speed_def h)
  qed
qed

lemma hours_of_zero:
  "is_zero eta \<Longrightarrow> py_truediv (PFloat eta) 60 = Inr eta"
  by (auto simp: is_zero_def py_truediv_def float_of_int_60 float_div_def is_inf_def
      sign_bit_def magnitude_def to_float_def)

lemma avg_speed_at_zero: "is_zero eta \<Longrightarrow> avg_speed distance_mi eta = Inr (PInt 0)"
  by (auto simp: avg_speed_def hours_of_zero is_zero_def py_gt0_def)

section \<open>What a run does to the world\<close>

lemma eta_minutes_eq:
  "eta_minutes gmaps origin destination t w =
     (ebind (gmaps (driving_query origin destination t)) leg_summary,
      w\<lparr>queries := queries w @ [driving_query origin destination t]\<rparr>)"
  by (simp add: eta_minutes_def Let_def ebind_def split: sum.splits)

lemma print_simps [simp]:
  "stdout (print s w) = stdout w @ [Line s]"
  "queries (print s w) = queries w"
  "fs (print s w) = fs w"
  "stdin (print s w) = stdin w"
  "now (print s w) = now w"
  "current_time (print s w) = current_time w"
  "access (print s w) = access w"
  by (simp_all add: print_def)

lemma future_report_effect:
  "\<exists>r out. future_report lib gmaps origin destination n w =
     (r, w\<lparr>queries := queries w @ [driving_query origin destination (now w + n * 60)],
           stdout := stdout w @ out\<rparr>)"
proof -
  define w1 where
    "w1 = w\<lparr>queries := queries w @ [driving_query origin destination (now w + n * 60)]\<rparr>"
  have shape: "\<exists>r out. (case x of Inl e \<Rightarrow> (Inl e, w1) | Inr line \<Rightarrow> (Inr (), print line w1))
                 = (r, w1\<lparr>stdout := stdout w @ out\<rparr>)" for x :: "exn + string"
  proof (cases x)
    case (Inl e)
    show ?thesis by (intro exI [of _ "Inl e"] exI [of _ "[]"]) (simp add: Inl w1_def)
  next
    case (Inr line)
    show ?thesis
      by (intro exI [of _ "Inr ()"] exI [of _ "[Line line]"]) (simp add: Inr w1_def print_def)
  qed
  have "\<exists>r out. future_report lib gmaps origin destination n w
          = (r, w1\<lparr>stdout := stdout w @ out\<rparr>)"
  proof (cases "ebind (gmaps (driving_query origin destination (now w + n * 60))) leg_summary")
    case (Inl e)
    then show ?thesis
      using shape [of "Inl e"] by (simp add: future_report_def eta_minutes_eq w1_def)
  next
    case (Inr r)
    obtain a b c d where r: "r = (a, b, c, d)" by (cases r) auto
    show ?thesis
      unfolding future_report_def eta_minutes_eq w1_def [symmetric] Inr r prod.case sum.case
      by (rule shape)
  qed
  then show ?thesis by (simp add: w1_def)
qed

lemma future_report_queries:
  "queries (snd (future_report lib gmaps origin destination n w))
     = queries w @ [driving_query origin destination (now w + n * 60)]"
  using future_report_effect [of lib gmaps origin destination n w] by auto

lemma report_queries:
  assumes "gmaps (driving_query origin destination (now w)) = Inr result"
    and "leg_summary result = Inr (eta, formatted_origin, formatted_destination, distance)"
  shows "queries (snd (report lib gmaps origin destination (Some n) w))
     = queries w @ driving_query origin destination (now w)
         # (if \<exists>mi t clock. distance_miles lib distance = Inr mi
                 \<and> add_minutes lib (current_time w) eta = Inr t \<and> strftime lib t = Inr clock
            then [driving_query formatted_origin formatted_destination (now w + n * 60)]
            else [])"
proof (cases "distance_miles lib distance")
  case (Inl e)
  then show ?thesis by (simp add: report_def eta_minutes_eq assms)
next
  case (Inr mi)
  obtain speed where speed: "avg_speed mi eta = Inr speed"
    using avg_speed_total by blast
  show ?thesis
  proof (cases "add_minutes lib (current_time w) eta")
    case (Inl e)
    then show ?thesis by (simp add: report_def eta_minutes_eq assms Inr speed)
  next
    case t: (Inr t)
    show ?thesis
    proof (cases "strftime lib t")
      case (Inl e)
      then show ?thesis by (simp add: report_def eta_minutes_eq assms Inr speed t)
    next
      case clock: (Inr clock)
      then show ?thesis
        by (simp add: report_def eta_minutes_eq assms Inr speed t future_report_queries)
    qed
  qed
qed



lemma resolve_given:
  "resolve_addresses lib
     \<lparr>args_origin = Some origin, args_destination = Some destination,
      args_future = future, args_defaults = flag\<rparr> w
   = (Inr (Some (PStr origin, PStr destination)), w)"
  by (simp add: resolve_addresses_def)

lemma resolve_missing:
  assumes "args_origin a = None \<or> args_destination a = None"
  shows "resolve_addresses lib a w =
     (if args_defaults a
      then (Inr None,
            print_help (print ''Error: Must provide addresses when using --defaults'' w))
      else (case get_addresses lib w of
              (Inl e, w') \<Rightarrow> (Inl e, w')
            | (Inr addresses, w') \<Rightarrow> (Inr (Some addresses), w')))"
  using assms by (auto simp: resolve_addresses_def split: option.splits)


section \<open>Saving the defaults\<close>

lemma save_defaults_ok:
  "saving_allowed a f \<Longrightarrow>
     save_defaults lib origin destination a f
       = (Inr (), HasFile (json_dumps lib (defaults_object origin destination)))"
  by (cases f)
     (auto simp: saving_allowed_def save_defaults_def mkdir_config_def open_write_def
        write_text_def)




section \<open>Loading the defaults\<close>

lemma load_defaults_cases:
  "load_defaults lib f = (case f of
       HasFile content \<Rightarrow>
         (case json_loads lib content of
            Inr v \<Rightarrow> Inr v
          | Inl e \<Rightarrow>
              if kind e = FileNotFoundError \<or> kind e = JSONDecodeError then Inr PNone
              else Inl e)
     | NoAccess \<Rightarrow>
         Inl (Exn PermissionError (''[Errno 13] Permission denied: '' @ quoted_path lib))
     | _ \<Rightarrow> Inr PNone)"
  by (cases f) (simp_all add: load_defaults_def open_read_def ebind_def split: sum.splits)

lemma get_addresses_raises:
  "load_defaults lib (fs w) = Inl e \<Longrightarrow> get_addresses lib w = (Inl e, w)"
  by (simp add: get_addresses_def)

lemma get_addresses_indexes:
  "load_defaults lib (fs w) = Inr v \<Longrightarrow> truthy v \<Longrightarrow>
   get_addresses lib w =
     (ebind (py_getitem_str v ''origin'') (\<lambda>origin.
      ebind (py_getitem_str v ''destination'') (\<lambda>destination. Inr (origin, destination))), w)"
  by (simp add: get_addresses_def)

lemma get_addresses_prompts:
  assumes "load_defaults lib (fs w) = Inr v" and "\<not> truthy v"
  shows "\<exists>rest. stdout (snd (get_addresses lib w))
     = stdout w @ Line ''No default addresses found. Please provide addresses.'' # rest"
  using assms
  by (cases "stdin w"; cases "tl (stdin w)")
     (simp_all add: get_addresses_def py_input_def Let_def print_def)

lemma prompted_iff:
  "prompted lib w \<longleftrightarrow> (\<exists>v. load_defaults lib (fs w) = Inr v \<and> \<not> truthy v)"
proof (cases "load_defaults lib (fs w)")
  case (Inl e)
  then show ?thesis by (simp add: prompted_def get_addresses_raises)
next
  case (Inr v)
  show ?thesis
  proof (cases "truthy v")
    case True
    then show ?thesis by (simp add: prompted_def get_addresses_indexes [OF Inr] Inr)
  next
    case False
    then show ?thesis
      using get_addresses_prompts [OF Inr] by (simp add: prompted_def Inr)
  qed
qed

lemma missing_key_raises:
  assumes "\<not> has_key v ''origin'' \<or> \<not> has_key v ''destination''"
  shows "\<exists>e. ebind (py_getitem_str v ''origin'') (\<lambda>origin.
            ebind (py_getitem_str v ''destination'') (\<lambda>destination. Inr (origin, destination)))
          = Inl e \<and> (kind e = KeyError \<or> kind e = TypeError)"
  using assms
  by (cases v)
     (auto simp: has_key_def py_getitem_str_def not_subscriptable_def split: option.splits)

section \<open>The sample responses\<close>

lemma queries_handle_error: "queries (handle_error e w) = queries w"
  by (simp add: handle_error_def Let_def)

lemma bit_length_20: "bit_length 20 = 5"
  by (simp add: bit_length.simps)

lemma to_float_20: "to_float False 20 = Fin 20"
  by (simp add: to_float_def nearest_double_def ilog2_def bit_length_20 bit_length_1 pow2_def
      round_half_even_def Let_def)

lemma sample_leg_summary:
  "leg_summary (sample_result 1200)
     = Inr (Fin 20, PStr ''Mountain View, CA, USA'', PStr ''Cupertino, CA, USA'', PStr ''7.5 mi'')"
proof -
  have "py_truediv (PInt 1200) 60 = Inr (Fin 20)"
    by (simp add: py_truediv_def int_truediv_def to_float_20 is_inf_def)
  moreover have "py_round1 (Fin 20) = Fin 20"
    by (simp add: py_round1_def round_half_even_def to_float_20)
  ultimately show ?thesis
    by (simp add: leg_summary_def sample_result_def sample_route_def sample_leg_def
        sample_duration_def sample_distance_def getitem0_cons py_getitem_str_def)
qed

lemma sample_distance_miles:
  "distance_miles ref_lib (PStr ''7.5 mi'') = Inr (to_float False (15 / 2))"
  by (simp add: distance_miles_def ref_lib_def ref_split_def ref_float_def is_number_def
      is_digit_def decimal_value_def Let_def)

lemma bit_length_1800: "bit_length 1800 = 11"
  by (simp add: bit_length.simps)

lemma to_float_1800: "to_float False 1800 = Fin 1800"
  by (simp add: to_float_def nearest_double_def ilog2_def bit_length_1800 bit_length_1 pow2_def
      round_half_even_def Let_def)

lemma ref_loads_dumps_flat: "ref_loads (dumps_flat kvs) = Inr (PDict (dict_of kvs))"
  by (simp add: ref_loads_def loads_flat_dumps_flat)

lemma ref_loads_home:
  "ref_loads (ref_dumps (PDict [(''home'', PStr ''x'')])) = Inr (PDict [(''home'', PStr ''x'')])"
  by (simp add: ref_dumps_def ref_loads_dumps_flat dict_of_def)

lemma ref_loads_defaults:
  "ref_loads (ref_dumps (defaults_object (PStr origin) (PStr destination)))
     = Inr (defaults_object (PStr origin) (PStr destination))"
  by (simp add: ref_dumps_def ref_loads_dumps_flat dict_of_def defaults_object_def)

lemma ref_loads_broken:
  "ref_loads ''{oops'' = Inl (Exn JSONDecodeError ''Expecting value: line 1 column 1 (char 0)'')"
  by (simp add: ref_loads_def loads_flat_def is_ws_def items.simps string_literal_def)

lemma ref_loads_bytes:
  "ref_loads [CHR 0xFF] = Inl (Exn UnicodeDecodeError
     (sq @ ''utf-8'' @ sq @ '' codec can'' @ sq
      @ ''t decode byte 0xff in position 0: invalid start byte''))"
  by (simp add: ref_loads_def loads_flat_def is_ws_def)

lemma leg_summary_empty: "leg_summary (PList []) = Inl (Exn IndexError ''list index out of range'')"
  by (simp add: leg_summary_def py_getitem_int_def py_index_def)

lemma zero_results_exception_report:
  assumes "gmaps (driving_query (PStr origin) (PStr destination) (now w)) = Inl e"
    and "py_contains ''ZERO_RESULTS'' (message e)"
  shows "main lib gmaps
     \<lparr>args_origin = Some origin, args_destination = Some destination,
      args_future = future, args_defaults = False\<rparr> w
   = (None, w\<lparr>queries := queries w @ [driving_query (PStr origin) (PStr destination) (now w)],
              stdout := stdout w @ [Line (''Error: '' @ message e),
                 Line ''No route found between the specified addresses.'']\<rparr>)"
  using assms
  by (simp add: main_def resolve_given save_if_requested_def report_def eta_minutes_eq
      handle_error_def Let_def print_def)

lemma current_report_zero_eta:
  assumes "gmaps (driving_query origin destination (now w)) = Inr result"
    and "leg_summary result = Inr (eta, formatted_origin, formatted_destination, distance)"
    and "is_zero eta"
    and "distance_miles lib distance = Inr mi"
    and "add_minutes lib (current_time w) eta = Inr t"
    and "strftime lib t = Inr clock"
  shows "report lib gmaps origin destination None w =
     (Inr (), w\<lparr>queries := queries w @ [driving_query origin destination (now w)],
               stdout := stdout w
                 @ [Line (route_line lib formatted_origin formatted_destination distance),
                    Line (''Current ETA: '' @ eta_text lib clock eta mi (PInt 0))]\<rparr>)"
  by (simp add: report_def eta_minutes_eq assms avg_speed_at_zero print_def)

lemma future_report_zero_eta:
  assumes "gmaps (driving_query origin destination (now w + n * 60)) = Inr result"
    and "leg_summary result = Inr (eta, formatted_origin, formatted_destination, distance)"
    and "is_zero eta"
    and "distance_miles lib distance = Inr mi"
    and "float_of_int n = Inr offset"
    and "add_minutes lib (current_time w) (float_add offset eta) = Inr t"
    and "strftime lib t = Inr clock"
  shows "future_report lib gmaps origin destination n w =
     (Inr (), w\<lparr>queries := queries w @ [driving_query origin destination (now w + n * 60)],
               stdout := stdout w
                 @ [Line (''ETA in '' @ py_str lib (PInt n) @ '' min: ''
                          @ eta_text lib clock eta mi (PInt 0))]\<rparr>)"
  by (simp add: future_report_def eta_minutes_eq assms avg_speed_at_zero print_def)

section \<open>The directions client returns the first leg of the first route\<close>

text \<open>
  C1, as stated, says that the fourth component \<^verbatim>\<open>eta_minutes\<close> returns has the shape
  \<^verbatim>\<open><number> <unit>\<close>. The function returns \<^verbatim>\<open>leg["distance"]["text"]\<close> as the service gave
  it and checks nothing. For a leg of 3439 km the service's text is \<^verbatim>\<open>2,137 mi\<close>, with a
  thousands separator: the part before the space is no number (\<^verbatim>\<open>float("2,137")\<close> raises
  \<^verbatim>\<open>ValueError\<close>), and that text is the fourth component.
\<close>

theorem distance_text_not_checked:
  "fst (eta_minutes long_trip_gmaps (PStr ''Chicago'') (PStr ''Los Angeles'') 1700000000
          (sample_world NoFile []))
     = Inr (Fin 1800, PStr ''Chicago, IL, USA'', PStr ''Los Angeles, CA, USA'', PStr ''2,137 mi'')
   \<and> \<not> number_unit ''2,137 mi''"
proof -
  have "py_truediv (PInt 108000) 60 = Inr (Fin 1800)"
    by (simp add: py_truediv_def int_truediv_def to_float_1800 is_inf_def)
  moreover have "py_round1 (Fin 1800) = Fin 1800"
    by (simp add: py_round1_def round_half_even_def to_float_1800)
  ultimately have "leg_summary (PList [PDict [(''legs'', PList [PDict long_trip_leg])]])
      = Inr (Fin 1800, PStr ''Chicago, IL, USA'', PStr ''Los Angeles, CA, USA'', PStr ''2,137 mi'')"
    by (simp add: leg_summary_def long_trip_leg_def getitem0_cons py_getitem_str_def)
  moreover have "\<not> number_unit ''2,137 mi''"
    by (simp add: number_unit_def is_number_def is_digit_def)
  ultimately show ?thesis
    by (simp add: eta_minutes_def long_trip_gmaps_def Let_def)
qed

text \<open>
  C1, amended. When the service answers the request for \<open>origin\<close>, \<open>destination\<close> and the
  departure time \<open>t\<close> (mode \<^verbatim>\<open>driving\<close>, traffic model \<^verbatim>\<open>best_guess\<close>) with a list whose
  first route has a first leg carrying \<^verbatim>\<open>duration_in_traffic.value\<close> (a number of seconds
  from 0 to below \<open>2\<^sup>6\<^sup>3\<close>), \<^verbatim>\<open>start_address\<close>, \<^verbatim>\<open>end_address\<close> and \<^verbatim>\<open>distance.text\<close>, then
  \<^verbatim>\<open>eta_minutes\<close> returns four components. The first is a finite float \<open>e\<close>, not negative,
  which is the binary64 value nearest to \<open>k / 10\<close> for an integer \<open>k \<ge> 0\<close>, that is a number
  of one decimal, and \<open>k / 10\<close> is within half a tenth of the seconds divided by 60 (up to
  the rounding of that quotient to binary64); it is \<^verbatim>\<open>round(seconds / 60, 1)\<close>. The second
  and third are the two addresses of that leg. The fourth is the distance text of that leg
  exactly as the service gave it, whatever its shape.
\<close>

theorem eta_minutes_first_leg:
  assumes "gmaps \<lparr>q_origin = origin, q_destination = destination, q_mode = ''driving'',
             q_departure_time = t, q_traffic_model = ''best_guess''\<rparr>
           = Inr (PList (PDict route # routes))"
    and "map_of route ''legs'' = Some (PList (PDict leg # legs))"
    and "map_of leg ''duration_in_traffic'' = Some (PDict duration)"
    and "map_of duration ''value'' = Some (PInt seconds)"
    and "0 \<le> seconds" and "seconds < 2 ^ 63"
    and "map_of leg ''start_address'' = Some start"
    and "map_of leg ''end_address'' = Some stop"
    and "map_of leg ''distance'' = Some (PDict distance)"
    and "map_of distance ''text'' = Some dtext"
  shows "\<exists>e k.
           fst (eta_minutes gmaps origin destination t w) = Inr (Fin e, start, stop, dtext)
           \<and> 0 \<le> e \<and> 0 \<le> k
           \<and> \<bar>e - of_int k / 10\<bar> \<le> of_int k / 10 / 2 ^ 53
           \<and> \<bar>(of_int k :: rat) / 10 - of_int seconds / 60\<bar>
                \<le> 1 / 20 + of_int seconds / 60 / 2 ^ 53
           \<and> Fin e = py_round1 (to_float False (of_int seconds / 60))"
proof -
  have minutes: "py_truediv (PInt seconds) 60 = Inr (to_float False (of_int seconds / 60))"
    using assms(5,6) by (simp add: py_truediv_def int_truediv_60)
  have "leg_summary (PList (PDict route # routes))
          = Inr (py_round1 (to_float False (of_int seconds / 60)), start, stop, dtext)"
    unfolding leg_summary_def
    by (simp add: getitem0_cons getitem_str_dict assms(2,3,4,7,8,9,10) minutes)
  then have "fst (eta_minutes gmaps origin destination t w)
          = Inr (py_round1 (to_float False (of_int seconds / 60)), start, stop, dtext)"
    by (simp add: eta_minutes_def driving_query_def Let_def assms(1))
  moreover obtain e k where "py_round1 (to_float False (of_int seconds / 60)) = Fin e"
    and "0 \<le> e" and "0 \<le> k"
    and "\<bar>e - of_int k / 10\<bar> \<le> of_int k / 10 / 2 ^ 53"
    and "\<bar>(of_int k :: rat) / 10 - of_int seconds / 60\<bar>
           \<le> 1 / 20 + of_int seconds / 60 / 2 ^ 53"
    using minutes_rounded [OF assms(5,6)] by blast
  ultimately show ?thesis by (intro exI [of _ e] exI [of _ k]) simp
qed

theorem eta_minutes_first_leg_witness:
  "\<exists>e k.
     fst (eta_minutes (sample_gmaps 1230) (PStr ''A'') (PStr ''B'') 1700000000 (sample_world NoFile []))
       = Inr (Fin e, PStr ''Mountain View, CA, USA'', PStr ''Cupertino, CA, USA'', PStr ''7.5 mi'')
     \<and> 0 \<le> e \<and> 0 \<le> k
     \<and> \<bar>e - of_int k / 10\<bar> \<le> of_int k / 10 / 2 ^ 53
     \<and> \<bar>(of_int k :: rat) / 10 - of_int 1230 / 60\<bar> \<le> 1 / 20 + of_int 1230 / 60 / 2 ^ 53
     \<and> Fin e = py_round1 (to_float False (of_int 1230 / 60))"
  by (rule eta_minutes_first_leg [where route = "sample_route 1230" and routes = "[]"
        and leg = "sample_leg 1230" and legs = "[]" and duration = "sample_duration 1230"
        and distance = sample_distance])
     (simp_all add: sample_gmaps_def sample_result_def sample_route_def sample_leg_def
        sample_duration_def sample_distance_def)

section \<open>An empty list of routes is reported as an index error\<close>

text \<open>
  C2. A run for which no driving route exists should print an \<^verbatim>\<open>Error: \<close> line and
  then a "no route found" line, and not crash. When the directions call answers with an
  empty list of routes, line 61 raises \<^verbatim>\<open>IndexError\<close>, the handler prints
  \<^verbatim>\<open>Error: list index out of range\<close>, and because that text does not contain
  \<^verbatim>\<open>ZERO_RESULTS\<close> nothing else is printed; \<^verbatim>\<open>main\<close> returns. The second line is printed
  only when the directions call itself raises with \<^verbatim>\<open>ZERO_RESULTS\<close> in its message
  (\<open>zero_results_exception_report\<close>).
\<close>

theorem empty_route_list_report:
  "main lib (\<lambda>q. Inr (PList []))
     \<lparr>args_origin = Some origin, args_destination = Some destination,
      args_future = future, args_defaults = False\<rparr> w
   = (None, w\<lparr>queries := queries w @ [driving_query (PStr origin) (PStr destination) (now w)],
              stdout := stdout w @ [Line ''Error: list index out of range'']\<rparr>)"
  by (simp add: main_def resolve_given save_if_requested_def report_def eta_minutes_eq
      leg_summary_empty handle_error_def Let_def print_def)

section \<open>Saving defaults\<close>




text \<open>
  C6. With \<^verbatim>\<open>--defaults\<close> and at least one address missing, \<^verbatim>\<open>main\<close> prints the error
  line and the usage text and returns: the world is otherwise unchanged, so there is no
  query and the preferences file is not written.
\<close>

theorem defaults_flag_without_addresses:
  assumes "args_defaults a" and "args_origin a = None \<or> args_destination a = None"
  shows "main lib gmaps a w =
     (None, w\<lparr>stdout := stdout w
        @ [Line ''Error: Must provide addresses when using --defaults'', Help]\<rparr>)"
  using assms by (simp add: main_def resolve_missing print_help_def print_def)

theorem defaults_flag_without_addresses_witness:
  "main ref_lib (sample_gmaps 1200)
     \<lparr>args_origin = Some ''A'', args_destination = None, args_future = None,
      args_defaults = True\<rparr> (sample_world NoFile [])
   = (None, \<lparr>fs = NoFile,
        access = \<lparr>mkdir_error = None, create_error = None, write_error = None\<rparr>, stdin = [],
        stdout = [Line ''Error: Must provide addresses when using --defaults'', Help],
        queries = [], now = 1700000000, current_time = 32400000000\<rparr>)"
  using defaults_flag_without_addresses [of
      "\<lparr>args_origin = Some ''A'', args_destination = None, args_future = None,
        args_defaults = True\<rparr>" ref_lib "sample_gmaps 1200" "sample_world NoFile []"]
  by (simp add: sample_world_def)

section \<open>Resolving the addresses\<close>



section \<open>Zero minutes give zero speed\<close>

text \<open>
  C7. When the ETA is zero (\<open>0.0\<close> or \<open>-0.0\<close>), the average speed is the integer 0, for any
  distance, and the computation raises nothing. \<open>avg_speed\<close> is the computation of lines
  132 to 133, for the current ETA, and of lines 146 to 147, for the future ETA
  (\<open>current_report_zero_eta\<close>, \<open>future_report_zero_eta\<close>).
\<close>

theorem zero_eta_zero_speed:
  assumes "is_zero eta"
  shows "avg_speed distance_mi eta = Inr (PInt 0)"
  using assms by (rule avg_speed_at_zero)

theorem zero_eta_zero_speed_witness:
  "is_zero NegZero \<and> avg_speed (Fin (15 / 2)) NegZero = Inr (PInt 0)"
  using zero_eta_zero_speed [of NegZero "Fin (15 / 2)"] by (simp add: is_zero_def)

section \<open>The future query asks for the formatted addresses\<close>

text \<open>
  C8. In a run with \<^verbatim>\<open>--future N\<close> that reaches the first query and gets a leg from it,
  the queries of the run are the first one, whose origin and destination are the addresses
  the run resolved, and, when the current report succeeded (the distance parsed, the
  arrival time was computed and formatted), exactly one more: the future query, whose
  origin and destination fields are the \<^verbatim>\<open>start_address\<close> and \<^verbatim>\<open>end_address\<close> that the
  first query returned, not the addresses the run started with, and whose departure time
  is \<open>N\<close> minutes later.
\<close>

theorem future_query_uses_formatted_addresses:
  assumes "args_future a = Some n"
    and "resolve_addresses lib a w = (Inr (Some (origin, destination)), w1)"
    and "save_if_requested lib a origin destination w1 = (Inr u, w2)"
    and "gmaps \<lparr>q_origin = origin, q_destination = destination, q_mode = ''driving'',
            q_departure_time = now w2, q_traffic_model = ''best_guess''\<rparr> = Inr result"
    and "leg_summary result = Inr (eta, formatted_origin, formatted_destination, distance)"
  shows "queries (snd (main lib gmaps a w))
     = queries w2
       @ \<lparr>q_origin = origin, q_destination = destination, q_mode = ''driving'',
          q_departure_time = now w2, q_traffic_model = ''best_guess''\<rparr>
       # (if \<exists>mi t clock. distance_miles lib distance = Inr mi
                 \<and> add_minutes lib (current_time w2) eta = Inr t \<and> strftime lib t = Inr clock
          then [\<lparr>q_origin = formatted_origin, q_destination = formatted_destination, q_mode = ''driving'',
                  q_departure_time = now w2 + n * 60, q_traffic_model = ''best_guess''\<rparr>]
          else [])"
proof -
  have g: "gmaps (driving_query origin destination (now w2)) = Inr result"
    using assms(4) by (simp add: driving_query_def)
  have "queries (snd (main lib gmaps a w))
      = queries (snd (report lib gmaps origin destination (Some n) w2))"
    by (simp add: main_def assms(1,2,3) queries_handle_error split: prod.splits sum.splits)
  then show ?thesis
    using report_queries [where gmaps = gmaps and lib = lib and n = n, OF g assms(5)]
    by (simp add: driving_query_def)
qed

theorem future_query_uses_formatted_addresses_witness:
  "queries (snd (main ref_lib (sample_gmaps 1200)
       \<lparr>args_origin = Some ''A'', args_destination = Some ''B'', args_future = Some 30,
        args_defaults = False\<rparr> (sample_world NoFile [])))
   = [\<lparr>q_origin = PStr ''A'', q_destination = PStr ''B'', q_mode = ''driving'',
       q_departure_time = 1700000000, q_traffic_model = ''best_guess''\<rparr>,
      \<lparr>q_origin = PStr ''Mountain View, CA, USA'', q_destination = PStr ''Cupertino, CA, USA'', q_mode = ''driving'',
       q_departure_time = 1700001800, q_traffic_model = ''best_guess''\<rparr>]"
proof -
  let ?a = "\<lparr>args_origin = Some ''A'', args_destination = Some ''B'', args_future = Some 30,
        args_defaults = False\<rparr>"
  let ?w = "sample_world NoFile []"
  have h1: "args_future ?a = Some 30" by simp
  have h2: "resolve_addresses ref_lib ?a ?w = (Inr (Some (PStr ''A'', PStr ''B'')), ?w)"
    by (rule resolve_given)
  have h3: "save_if_requested ref_lib ?a (PStr ''A'') (PStr ''B'') ?w = (Inr (), ?w)"
    by (simp add: save_if_requested_def)
  have h4: "sample_gmaps 1200 \<lparr>q_origin = PStr ''A'', q_destination = PStr ''B'', q_mode = ''driving'',
       q_departure_time = now ?w, q_traffic_model = ''best_guess''\<rparr>
      = Inr (sample_result 1200)"
    by (simp add: sample_gmaps_def)
  have ok: "\<exists>mi t clock. distance_miles ref_lib (PStr ''7.5 mi'') = Inr mi
      \<and> add_minutes ref_lib (current_time ?w) (Fin 20) = Inr t \<and> strftime ref_lib t = Inr clock"
    by (simp add: sample_distance_miles)
       (simp add: ref_lib_def ref_add_minutes_def ref_strftime_def Let_def)
  show ?thesis
    using future_query_uses_formatted_addresses [where gmaps = "sample_gmaps 1200"
        and lib = ref_lib, OF h1 h2 h3 h4 sample_leg_summary] ok
    by (simp add: sample_world_def)
qed

section \<open>Loading and saving the defaults\<close>

text \<open>
  C4, as stated, says that \<^verbatim>\<open>load_defaults\<close> never raises, whatever the state of the
  preferences file. It raises \<^verbatim>\<open>PermissionError\<close> when the file exists and the user may
  not read it, and \<^verbatim>\<open>UnicodeDecodeError\<close> when the file holds the byte \<^verbatim>\<open>0xff\<close>, which is
  not UTF-8: the \<^verbatim>\<open>except\<close> clause names only \<^verbatim>\<open>FileNotFoundError\<close> and
  \<^verbatim>\<open>json.JSONDecodeError\<close>.
\<close>

theorem load_defaults_raises:
  "load_defaults ref_lib NoAccess
     = Inl (Exn PermissionError (''[Errno 13] Permission denied: '' @ sq
              @ ''/home/user/.config/drive_time/defaults.json'' @ sq))
   \<and> load_defaults ref_lib (HasFile [CHR 0xFF])
     = Inl (Exn UnicodeDecodeError (sq @ ''utf-8'' @ sq @ '' codec can'' @ sq
              @ ''t decode byte 0xff in position 0: invalid start byte''))"
  by (simp add: load_defaults_cases quoted_path_def ref_lib_def ref_loads_bytes)

text \<open>
  C4, amended. \<^verbatim>\<open>load_defaults\<close> returns \<^verbatim>\<open>None\<close> when the preferences file is missing;
  when the file can be opened it returns the decoded value if reading and decoding its
  text succeeds, and \<^verbatim>\<open>None\<close> if that raises \<^verbatim>\<open>json.JSONDecodeError\<close> (or
  \<^verbatim>\<open>FileNotFoundError\<close>). Any other failure propagates: when the file may not be read,
  \<^verbatim>\<open>PermissionError\<close> is raised, and when reading and decoding raises an exception of
  another kind, that exception is raised.
\<close>

theorem load_defaults_outcomes:
  "(f = NoDir \<or> f = NoFile \<longrightarrow> load_defaults lib f = Inr PNone)
   \<and> (f = NoAccess \<longrightarrow> (\<exists>e. load_defaults lib f = Inl e \<and> kind e = PermissionError))
   \<and> (f = HasFile content \<and> json_loads lib content = Inr v \<longrightarrow> load_defaults lib f = Inr v)
   \<and> (f = HasFile content \<and> json_loads lib content = Inl e
        \<and> (kind e = JSONDecodeError \<or> kind e = FileNotFoundError)
      \<longrightarrow> load_defaults lib f = Inr PNone)
   \<and> (f = HasFile content \<and> json_loads lib content = Inl e
        \<and> kind e \<noteq> JSONDecodeError \<and> kind e \<noteq> FileNotFoundError
      \<longrightarrow> load_defaults lib f = Inl e)"
  by (auto simp: load_defaults_cases)

theorem load_defaults_outcomes_witness:
  "load_defaults ref_lib NoFile = Inr PNone
   \<and> (\<exists>e. load_defaults ref_lib NoAccess = Inl e \<and> kind e = PermissionError)
   \<and> load_defaults ref_lib (HasFile (ref_dumps (defaults_object (PStr ''A'') (PStr ''B''))))
       = Inr (defaults_object (PStr ''A'') (PStr ''B''))
   \<and> load_defaults ref_lib (HasFile ''{oops'') = Inr PNone
   \<and> load_defaults ref_lib (HasFile [CHR 0xFF])
       = Inl (Exn UnicodeDecodeError (sq @ ''utf-8'' @ sq @ '' codec can'' @ sq
              @ ''t decode byte 0xff in position 0: invalid start byte''))"
proof -
  let ?good = "ref_dumps (defaults_object (PStr ''A'') (PStr ''B''))"
  let ?bad = "Exn JSONDecodeError ''Expecting value: line 1 column 1 (char 0)''"
  let ?bytes = "Exn UnicodeDecodeError (sq @ ''utf-8'' @ sq @ '' codec can'' @ sq
              @ ''t decode byte 0xff in position 0: invalid start byte'')"
  have good: "json_loads ref_lib ?good = Inr (defaults_object (PStr ''A'') (PStr ''B''))"
    by (simp add: ref_lib_def ref_loads_defaults)
  have bad: "json_loads ref_lib ''{oops'' = Inl ?bad"
    by (simp add: ref_lib_def ref_loads_broken)
  have bytes: "json_loads ref_lib [CHR 0xFF] = Inl ?bytes"
    by (simp add: ref_lib_def ref_loads_bytes)
  show ?thesis
    using load_defaults_outcomes [where f = NoFile and lib = ref_lib]
      load_defaults_outcomes [where f = NoAccess and lib = ref_lib]
      load_defaults_outcomes [where f = "HasFile ?good" and content = ?good and lib = ref_lib
        and v = "defaults_object (PStr ''A'') (PStr ''B'')"]
      load_defaults_outcomes [where f = "HasFile ''{oops''" and content = "''{oops''"
        and lib = ref_lib and e = ?bad]
      load_defaults_outcomes [where f = "HasFile [CHR 0xFF]" and content = "[CHR 0xFF]"
        and lib = ref_lib and e = ?bytes]
    by (simp add: good bad bytes)
qed

text \<open>
  C5. For every origin and destination string, when the operating system lets the
  preferences file be written, \<^verbatim>\<open>save_defaults\<close> returns and the file then holds the JSON
  text of the object of the two strings; afterwards \<^verbatim>\<open>load_defaults\<close> returns the object
  with exactly these two strings, and \<^verbatim>\<open>get_addresses\<close> returns the two strings without
  prompting. The JSON library is any one that writes that object as \<open>dumps_flat\<close> does and
  reads what \<open>loads_flat\<close> reads as \<open>loads_flat\<close> does; that the second undoes the first, for
  strings with quotes, backslashes and control characters too, is \<open>loads_flat_dumps_flat\<close>.
\<close>

theorem save_then_load:
  assumes "saving_allowed a f"
    and "json_dumps lib (defaults_object (PStr origin) (PStr destination))
           = dumps_flat [(''origin'', origin), (''destination'', destination)]"
    and "\<And>s kvs. loads_flat s = Some kvs \<Longrightarrow> json_loads lib s = Inr (PDict (dict_of kvs))"
  shows "\<exists>f'. save_defaults lib (PStr origin) (PStr destination) a f = (Inr (), f')
     \<and> f' = HasFile (dumps_flat [(''origin'', origin), (''destination'', destination)])
     \<and> load_defaults lib f' = Inr (defaults_object (PStr origin) (PStr destination))
     \<and> get_addresses lib (w\<lparr>fs := f'\<rparr>) = (Inr (PStr origin, PStr destination), w\<lparr>fs := f'\<rparr>)"
proof -
  let ?s = "dumps_flat [(''origin'', origin), (''destination'', destination)]"
  let ?f' = "HasFile ?s"
  have save: "save_defaults lib (PStr origin) (PStr destination) a f = (Inr (), ?f')"
    using save_defaults_ok [OF assms(1), of lib "PStr origin" "PStr destination"]
    by (simp add: assms(2))
  have "json_loads lib ?s
      = Inr (PDict (dict_of [(''origin'', origin), (''destination'', destination)]))"
    by (rule assms(3)) (rule loads_flat_dumps_flat)
  then have decoded: "json_loads lib ?s = Inr (defaults_object (PStr origin) (PStr destination))"
    by (simp add: dict_of_defaults defaults_object_def)
  have load: "load_defaults lib ?f' = Inr (defaults_object (PStr origin) (PStr destination))"
    by (simp add: load_defaults_cases decoded)
  have l2: "load_defaults lib (fs (w\<lparr>fs := ?f'\<rparr>))
      = Inr (defaults_object (PStr origin) (PStr destination))"
    by (simp add: load)
  have t: "truthy (defaults_object (PStr origin) (PStr destination))"
    by (simp add: truthy_def defaults_object_def)
  have "get_addresses lib (w\<lparr>fs := ?f'\<rparr>)
      = (Inr (PStr origin, PStr destination), w\<lparr>fs := ?f'\<rparr>)"
    unfolding get_addresses_indexes [OF l2 t]
    by (simp add: defaults_object_def py_getitem_str_def)
  with save load show ?thesis by blast
qed

theorem save_then_load_witness:
  "\<exists>f'. save_defaults ref_lib (PStr (''12 '' @ dq @ ''Main'' @ dq @ '' St'')) (PStr [bs, CHR ''n''])
           \<lparr>mkdir_error = None, create_error = None, write_error = None\<rparr> NoDir = (Inr (), f')
     \<and> f' = HasFile (dumps_flat [(''origin'', ''12 '' @ dq @ ''Main'' @ dq @ '' St''),
                                 (''destination'', [bs, CHR ''n''])])
     \<and> load_defaults ref_lib f'
         = Inr (defaults_object (PStr (''12 '' @ dq @ ''Main'' @ dq @ '' St'')) (PStr [bs, CHR ''n'']))
     \<and> get_addresses ref_lib ((sample_world NoDir [])\<lparr>fs := f'\<rparr>)
         = (Inr (PStr (''12 '' @ dq @ ''Main'' @ dq @ '' St''), PStr [bs, CHR ''n'']),
            (sample_world NoDir [])\<lparr>fs := f'\<rparr>)"
proof -
  let ?a = "\<lparr>mkdir_error = None, create_error = None, write_error = None\<rparr>"
  have h1: "saving_allowed ?a NoDir"
    by (simp add: saving_allowed_def)
  have h2: "json_dumps ref_lib (defaults_object (PStr (''12 '' @ dq @ ''Main'' @ dq @ '' St''))
        (PStr [bs, CHR ''n'']))
      = dumps_flat [(''origin'', ''12 '' @ dq @ ''Main'' @ dq @ '' St''),
                    (''destination'', [bs, CHR ''n''])]"
    by (simp add: ref_lib_def ref_dumps_def defaults_object_def)
  have h3: "json_loads ref_lib s = Inr (PDict (dict_of kvs))" if "loads_flat s = Some kvs" for s kvs
    using that by (simp add: ref_lib_def ref_loads_def)
  show ?thesis
    by (rule save_then_load [OF h1 h2 h3])
qed

section \<open>Defaults without the two keys\<close>

text \<open>
  C10. When the preferences file decodes to a truthy value without the key \<^verbatim>\<open>origin\<close> or
  without the key \<^verbatim>\<open>destination\<close> (a non-empty list, a dictionary with other keys, ...),
  \<^verbatim>\<open>get_addresses\<close> raises \<^verbatim>\<open>KeyError\<close> or \<^verbatim>\<open>TypeError\<close> at the indexing of line 91, and
  the exception leaves \<^verbatim>\<open>main\<close>, which called it outside the \<^verbatim>\<open>try\<close>. The fallback to
  prompting happens exactly when the file is missing, when decoding raises one of the two
  exceptions \<^verbatim>\<open>load_defaults\<close> catches, or when the decoded value is falsy.
\<close>

theorem defaults_without_keys_raise:
  "(fs w = HasFile content \<and> json_loads lib content = Inr v \<and> truthy v
      \<and> (\<not> has_key v ''origin'' \<or> \<not> has_key v ''destination'')
    \<longrightarrow> (\<exists>e. get_addresses lib w = (Inl e, w) \<and> (kind e = KeyError \<or> kind e = TypeError)
           \<and> main lib gmaps
                \<lparr>args_origin = None, args_destination = None, args_future = future,
                 args_defaults = False\<rparr> w = (Some e, w)))
   \<and> (prompted lib w \<longleftrightarrow>
        fs w = NoDir \<or> fs w = NoFile
        \<or> (\<exists>c. fs w = HasFile c
              \<and> (case json_loads lib c of
                    Inl e \<Rightarrow> kind e = JSONDecodeError \<or> kind e = FileNotFoundError
                  | Inr u \<Rightarrow> \<not> truthy u)))"
proof (intro conjI impI)
  assume h: "fs w = HasFile content \<and> json_loads lib content = Inr v \<and> truthy v
      \<and> (\<not> has_key v ''origin'' \<or> \<not> has_key v ''destination'')"
  then have load: "load_defaults lib (fs w) = Inr v"
    by (simp add: load_defaults_cases)
  obtain e where e: "ebind (py_getitem_str v ''origin'') (\<lambda>origin.
            ebind (py_getitem_str v ''destination'') (\<lambda>destination. Inr (origin, destination)))
          = Inl e" "kind e = KeyError \<or> kind e = TypeError"
    using missing_key_raises h by blast
  have g: "get_addresses lib w = (Inl e, w)"
    using h by (simp add: get_addresses_indexes [OF load] e)
  then have "main lib gmaps
                \<lparr>args_origin = None, args_destination = None, args_future = future,
                 args_defaults = False\<rparr> w = (Some e, w)"
    by (simp add: main_def resolve_missing)
  with g e(2) show "\<exists>e. get_addresses lib w = (Inl e, w) \<and> (kind e = KeyError \<or> kind e = TypeError)
           \<and> main lib gmaps
                \<lparr>args_origin = None, args_destination = None, args_future = future,
                 args_defaults = False\<rparr> w = (Some e, w)"
    by blast
next
  show "prompted lib w \<longleftrightarrow>
        fs w = NoDir \<or> fs w = NoFile
        \<or> (\<exists>c. fs w = HasFile c
              \<and> (case json_loads lib c of
                    Inl e \<Rightarrow> kind e = JSONDecodeError \<or> kind e = FileNotFoundError
                  | Inr u \<Rightarrow> \<not> truthy u))"
    unfolding prompted_iff load_defaults_cases
    by (cases "fs w") (auto simp: truthy_def split: sum.splits)
qed

theorem defaults_without_keys_raise_witness:
  "\<exists>e. get_addresses ref_lib
          (sample_world (HasFile (ref_dumps (PDict [(''home'', PStr ''x'')]))) [])
        = (Inl e, sample_world (HasFile (ref_dumps (PDict [(''home'', PStr ''x'')]))) [])
      \<and> (kind e = KeyError \<or> kind e = TypeError)
      \<and> main ref_lib (sample_gmaps 1200)
           \<lparr>args_origin = None, args_destination = None, args_future = None,
            args_defaults = False\<rparr>
           (sample_world (HasFile (ref_dumps (PDict [(''home'', PStr ''x'')]))) [])
        = (Some e, sample_world (HasFile (ref_dumps (PDict [(''home'', PStr ''x'')]))) [])"
proof -
  let ?content = "ref_dumps (PDict [(''home'', PStr ''x'')])"
  let ?v = "PDict [(''home'', PStr ''x'')]"
  have "fs (sample_world (HasFile ?content) []) = HasFile ?content
      \<and> json_loads ref_lib ?content = Inr ?v \<and> truthy ?v
      \<and> (\<not> has_key ?v ''origin'' \<or> \<not> has_key ?v ''destination'')"
    by (simp add: sample_world_def ref_lib_def ref_loads_home truthy_def has_key_def)
  then show ?thesis
    using defaults_without_keys_raise [of "sample_world (HasFile ?content) []" ?content
        ref_lib ?v "sample_gmaps 1200" None]
    by blast
qed

end
